theory Spec2Isabelle
  imports Main
begin

section \<open>The Groq MCP demo script\<close>

text \<open>
  A shallow embedding of \<^verbatim>\<open>scripts/groq_mcp_demo.py\<close>. The script reads three
  environment variables, builds a client and a list of tool descriptors, and runs four
  demo routines, each of which issues one chat-completion request and prints the result.

  Python strings are modelled as their UTF-8 byte sequences (\<^typ>\<open>string\<close>). What the
  process does to the outside world is recorded as a trace of events, in program order:
  a line printed to standard output, a line printed to the error stream, the construction
  of the client, and a completion request sent through the client.
\<close>

subsection \<open>Data\<close>

text \<open>A tool descriptor: the dictionaries of the list \<^verbatim>\<open>tools\<close>. The key
  \<^verbatim>\<open>headers\<close> is optional; its value is a dictionary of header names and values.\<close>

record tool =
  tool_type :: string
  server_url :: string
  headers :: "(string \<times> string) list option"

text \<open>The keyword arguments of \<^verbatim>\<open>client.chat.completions.create\<close>. A message is a
  pair of role and content; \<open>req_tools = None\<close> is a call without the \<^verbatim>\<open>tools\<close>
  argument.\<close>

record request =
  model :: string
  messages :: "(string \<times> string) list"
  req_tools :: "tool list option"
  max_tokens :: nat

text \<open>The response object, as far as the script reads it. \<open>tc_function = None\<close> is a
  tool call without the attribute \<^verbatim>\<open>function\<close>.\<close>

record function_call =
  fc_name :: string
  arguments :: string

record tool_call =
  tc_type :: string
  tc_function :: "function_call option"

record message =
  content :: "string option"
  tool_calls :: "tool_call list option"

record choice =
  choice_message :: message

record completion_usage =
  total_tokens :: int

record response =
  choices :: "choice list"
  usage :: "completion_usage option"

text \<open>An instance of Python's \<^verbatim>\<open>Exception\<close>, which is what the handlers of the script
  intercept: \<open>exn_str\<close> is what \<^verbatim>\<open>str(error)\<close> gives, and \<open>status_code = None\<close> is an
  error object without the attribute \<^verbatim>\<open>status_code\<close>.\<close>

record exn =
  exn_str :: string
  status_code :: "int option"

datatype event =
    Out string
  | Err string
  | NewClient "string option" string
  | Create request

text \<open>How a statement ends: normally, with an exception raised, or with
  \<^verbatim>\<open>sys.exit\<close>, which raises \<^verbatim>\<open>SystemExit\<close> (not an \<^verbatim>\<open>Exception\<close>, so no handler
  of the script intercepts it).\<close>

datatype outcome = Normal | Raised exn | Exit int

type_synonym stmt = "event list \<times> outcome"

text \<open>What \<^verbatim>\<open>json.loads\<close> does with a string: it returns the parsed value, it raises
  \<^verbatim>\<open>json.JSONDecodeError\<close>, or it raises another exception (a \<^verbatim>\<open>RecursionError\<close> on
  deep nesting, a plain \<^verbatim>\<open>ValueError\<close> on an integer with too many digits).\<close>

datatype 'j loads_result = Parsed 'j | JSONDecodeError | OtherError exn

text \<open>The libraries and the host the script runs on. They are parameters of the model:
  \<^item> \<open>new_client\<close> is the constructor \<^verbatim>\<open>OpenAI(api_key=..., base_url=...)\<close>: \<open>None\<close>
    when it returns the client, the exception when it raises;
  \<^item> \<open>stdout_error\<close> is what standard output does with a line of the start-up banner:
    \<open>None\<close> when the line is written, the exception when \<^verbatim>\<open>print\<close> raises (a
    \<^verbatim>\<open>UnicodeEncodeError\<close> under an encoding without the symbols of the banner);
  \<^item> \<open>create\<close> is the completion call of the client, which returns a response or raises;
  \<^item> \<open>json_loads\<close> is \<^verbatim>\<open>json.loads\<close>, \<open>json_dumps\<close> is \<^verbatim>\<open>json.dumps\<close> with
    \<^verbatim>\<open>indent=2\<close>, and \<open>dump_message\<close> is the JSON dump of a message
    (\<^verbatim>\<open>json.dumps(message.model_dump(), indent=2, default=str)\<close>).

  \<^typ>\<open>'j\<close> is the type of parsed JSON values.\<close>

record 'j libs =
  new_client :: "string option \<Rightarrow> string \<Rightarrow> exn option"
  stdout_error :: "string \<Rightarrow> exn option"
  create :: "request \<Rightarrow> exn + response"
  json_loads :: "string \<Rightarrow> 'j loads_result"
  json_dumps :: "'j \<Rightarrow> string"
  dump_message :: "message \<Rightarrow> string"

text \<open>The module-level names of the script after start-up.\<close>

record globals =
  GROQ_API_KEY :: "string option"
  DEFAULT_GROQ_MODEL :: string
  FIRECRAWL_API_KEY :: "string option"
  tools :: "tool list"

subsection \<open>Python values as text\<close>

text \<open>The truth value of an optional string: \<^verbatim>\<open>None\<close> and the empty string are false.\<close>

definition truthy :: "string option \<Rightarrow> bool" where
  "truthy v = (case v of None \<Rightarrow> False | Some s \<Rightarrow> s \<noteq> [])"

text \<open>\<^verbatim>\<open>str\<close> of an optional string, as \<^verbatim>\<open>print\<close> and f-strings apply it.\<close>

definition py_str :: "string option \<Rightarrow> string" where
  "py_str v = (case v of None \<Rightarrow> ''None'' | Some s \<Rightarrow> s)"

definition digit_char :: "nat \<Rightarrow> char" where
  "digit_char d = ''0123456789'' ! d"

function str_nat :: "nat \<Rightarrow> string" where
  "str_nat n = (if n < 10 then [digit_char n] else str_nat (n div 10) @ [digit_char (n mod 10)])"
  by pat_completeness auto
termination
  by (relation "measure (\<lambda>n. n)") auto

declare str_nat.simps [simp del]

text \<open>\<^verbatim>\<open>str\<close> of an integer: decimal digits, with a sign for negative numbers.\<close>

definition str_int :: "int \<Rightarrow> string" where
  "str_int i = (if i < 0 then CHR ''-'' # str_nat (nat (- i)) else str_nat (nat i))"

text \<open>\<^verbatim>\<open>s.replace(chr(10), chr(10) + '     ')\<close>: every line feed is followed by five
  spaces.\<close>

definition indent_continuation :: "string \<Rightarrow> string" where
  "indent_continuation s =
     concat (map (\<lambda>c. if c = CHR 0x0A then CHR 0x0A # ''     '' else [c]) s)"

text \<open>The symbols of the script's messages, in UTF-8.\<close>

definition cross_mark :: string where
  "cross_mark = [CHR 0xE2, CHR 0x9D, CHR 0x8C]"

definition check_mark :: string where
  "check_mark = [CHR 0xE2, CHR 0x9C, CHR 0x93]"

definition check_button :: string where
  "check_button = [CHR 0xE2, CHR 0x9C, CHR 0x85]"

definition rocket :: string where
  "rocket = [CHR 0xF0, CHR 0x9F, CHR 0x9A, CHR 0x80]"

definition memo :: string where
  "memo = [CHR 0xF0, CHR 0x9F, CHR 0x93, CHR 0x9D]"

definition wrench :: string where
  "wrench = [CHR 0xF0, CHR 0x9F, CHR 0x94, CHR 0xA7]"

definition magnifier :: string where
  "magnifier = [CHR 0xF0, CHR 0x9F, CHR 0x94, CHR 0x8D]"

definition next_track :: string where
  "next_track = [CHR 0xE2, CHR 0x8F, CHR 0xAD, CHR 0xEF, CHR 0xB8, CHR 0x8F]"

definition globe :: string where
  "globe = [CHR 0xF0, CHR 0x9F, CHR 0x8C, CHR 0x90]"

definition dashes :: string where
  "dashes = replicate 60 CHR ''-''"

definition equals_rule :: string where
  "equals_rule = replicate 60 CHR ''=''"

subsection \<open>Statements\<close>

text \<open>\<^verbatim>\<open>print(s)\<close> in the routines and in \<open>main\<close>. They run only after start-up has
  written its banner, with the symbols of the script in it, to the same stream, and their
  prints are taken to be written. \<^verbatim>\<open>print(s, file=sys.stderr)\<close> does not raise on a symbol
  the encoding lacks: the error stream replaces it by an escape.\<close>

definition print_stdout :: "string \<Rightarrow> stmt" where
  "print_stdout s = ([Out s], Normal)"

definition print_stderr :: "string \<Rightarrow> stmt" where
  "print_stderr s = ([Err s], Normal)"

definition skip :: stmt where
  "skip = ([], Normal)"

definition sys_exit :: "int \<Rightarrow> stmt" where
  "sys_exit c = ([], Exit c)"

text \<open>A sequence of statements: the first one that does not end normally ends the
  sequence, and the statements after it leave no trace.\<close>

fun block :: "stmt list \<Rightarrow> stmt" where
  "block [] = ([], Normal)"
| "block ((es, Normal) # ss) = (case block ss of (es', r) \<Rightarrow> (es @ es', r))"
| "block ((es, Raised e) # ss) = (es, Raised e)"
| "block ((es, Exit c) # ss) = (es, Exit c)"

text \<open>\<^verbatim>\<open>try: body except Exception as error: handler\<close>.\<close>

definition try_except :: "stmt \<Rightarrow> (exn \<Rightarrow> stmt) \<Rightarrow> stmt" where
  "try_except body handler =
     (case body of
        (es, Raised e) \<Rightarrow> (case handler e of (es', r) \<Rightarrow> (es @ es', r))
      | (es, r) \<Rightarrow> (es, r))"

text \<open>\<^verbatim>\<open>xs[0]\<close> on an empty list raises \<^verbatim>\<open>IndexError\<close>.\<close>

definition index_error :: exn where
  "index_error = \<lparr>exn_str = ''list index out of range'', status_code = None\<rparr>"

subsection \<open>Start-up: configuration, client and tool list\<close>

definition hf_tool :: tool where
  "hf_tool = \<lparr>tool_type = ''mcp'', server_url = ''https://huggingface.co/mcp'', headers = None\<rparr>"

definition firecrawl_tool :: "string option \<Rightarrow> tool" where
  "firecrawl_tool key =
     \<lparr>tool_type = ''mcp'', server_url = ''https://mcp.firecrawl.dev/'',
      headers = Some [(''Authorization'', ''Bearer '' @ py_str key)]\<rparr>"

definition usage_message :: "event list" where
  "usage_message =
     [Err (cross_mark @ '' Error: GROQ_API_KEY environment variable is required''),
      Err ''   Get your API key from https://console.groq.com/keys'',
      Err ''   Usage: GROQ_API_KEY=gsk_... python scripts/groq_mcp_demo.py'']"

text \<open>A module-level \<^verbatim>\<open>print(s)\<close> of the banner, and the construction of the client:
  each can raise.\<close>

definition print_banner :: "'j libs \<Rightarrow> string \<Rightarrow> stmt" where
  "print_banner L s =
     (case stdout_error L s of None \<Rightarrow> ([Out s], Normal) | Some e \<Rightarrow> ([], Raised e))"

definition construct_client :: "'j libs \<Rightarrow> string option \<Rightarrow> string \<Rightarrow> stmt" where
  "construct_client L key url =
     (case new_client L key url of
        None \<Rightarrow> ([NewClient key url], Normal)
      | Some e \<Rightarrow> ([], Raised e))"

text \<open>Lines 39 to 73, which run when the key check has passed.\<close>

definition startup_body :: "'j libs \<Rightarrow> string option \<Rightarrow> string \<Rightarrow> string option \<Rightarrow> stmt" where
  "startup_body L groq mdl firecrawl =
     block [construct_client L groq ''https://api.groq.com/openai/v1'',
            print_banner L (rocket @ '' Groq MCP Demo - Python''),
            print_banner L equals_rule,
            print_banner L (''Model: '' @ mdl),
            print_banner L (''Groq API: Configured '' @ check_mark),
            print_banner L (''Huggingface MCP: Enabled '' @ check_mark),
            if truthy firecrawl
            then print_banner L (''Firecrawl MCP: Enabled '' @ check_mark)
            else print_banner L ''Firecrawl MCP: Disabled (no API key)'',
            print_banner L equals_rule,
            print_banner L '''']"

text \<open>The module-level code, lines 27 to 73. The result is \<open>Inr g\<close>, the module-level
  names, when the code runs to its end, and \<open>Inl c\<close> when the process ends there with
  status \<open>c\<close>: by \<^verbatim>\<open>sys.exit(c)\<close>, or with status 1 by an exception that nothing
  handles. The trace holds what the script itself does, not the interpreter's report of an
  unhandled exception.\<close>

definition startup :: "'j libs \<Rightarrow> (string \<rightharpoonup> string) \<Rightarrow> event list \<times> (int + globals)" where
  "startup L environ =
     (let groq = environ ''GROQ_API_KEY'';
          mdl = (case environ ''DEFAULT_GROQ_MODEL'' of
                   None \<Rightarrow> ''llama-3.3-70b-versatile'' | Some m \<Rightarrow> m);
          firecrawl = environ ''FIRECRAWL_API_KEY''
      in if \<not> truthy groq then (usage_message, Inl 1)
         else
           (case startup_body L groq mdl firecrawl of
              (es, Normal) \<Rightarrow>
                (es, Inr \<lparr>GROQ_API_KEY = groq, DEFAULT_GROQ_MODEL = mdl,
                          FIRECRAWL_API_KEY = firecrawl,
                          tools = (if truthy firecrawl then [hf_tool, firecrawl_tool firecrawl]
                                   else [hf_tool])\<rparr>)
            | (es, Raised e) \<Rightarrow> (es, Inl 1)
            | (es, Exit c) \<Rightarrow> (es, Inl c)))"

subsection \<open>The four demo routines\<close>

definition tokens_line :: "response \<Rightarrow> string" where
  "tokens_line r =
     check_mark @ '' Completed in ''
       @ str_int (case usage r of Some u \<Rightarrow> total_tokens u | None \<Rightarrow> 0) @ '' tokens''"

definition error_line :: "exn \<Rightarrow> string" where
  "error_line error = cross_mark @ '' Error: '' @ exn_str error"

definition demo1_request :: "globals \<Rightarrow> request" where
  "demo1_request g =
     \<lparr>model = DEFAULT_GROQ_MODEL g,
      messages = [(''user'', ''Write a 4-line rap verse about artificial intelligence.'')],
      req_tools = None, max_tokens = 150\<rparr>"

definition demo1_try :: "'j libs \<Rightarrow> globals \<Rightarrow> stmt" where
  "demo1_try L g =
     (case create L (demo1_request g) of
        Inl e \<Rightarrow> ([Create (demo1_request g)], Raised e)
      | Inr r \<Rightarrow>
          block [([Create (demo1_request g)], Normal),
                 print_stdout ''Response:'',
                 (case choices r of
                    [] \<Rightarrow> ([], Raised index_error)
                  | c # _ \<Rightarrow> print_stdout (py_str (content (choice_message c)))),
                 print_stdout '''',
                 print_stdout (tokens_line r)])"

definition demo1_simple_completion :: "'j libs \<Rightarrow> globals \<Rightarrow> stmt" where
  "demo1_simple_completion L g =
     block [print_stdout (memo @ '' Demo 1: Simple Chat Completion (No MCP)''),
            print_stdout dashes,
            try_except (demo1_try L g)
              (\<lambda>error. block [print_stderr (error_line error),
                               if status_code error = Some 401
                               then print_stderr ''   Check your GROQ_API_KEY'' else skip]),
            print_stdout '''']"

definition demo2_request :: "globals \<Rightarrow> request" where
  "demo2_request g =
     \<lparr>model = DEFAULT_GROQ_MODEL g,
      messages = [(''user'',
        ''What are some popular open-source language models on Hugging Face? List 3 with brief descriptions.'')],
      req_tools = Some (tools g), max_tokens = 500\<rparr>"

text \<open>The body of the loop over the tool calls, lines 134 to 142.\<close>

definition show_tool_call :: "'j libs \<Rightarrow> nat \<Rightarrow> tool_call \<Rightarrow> stmt" where
  "show_tool_call L index tc =
     (let tool_name = (case tc_function tc of Some f \<Rightarrow> fc_name f | None \<Rightarrow> tc_type tc)
      in block [print_stdout (CHR 0x0A # ''  '' @ str_int (int index) @ ''. '' @ tool_name),
                (case tc_function tc of
                   None \<Rightarrow> skip
                 | Some f \<Rightarrow>
                     if arguments f \<noteq> [] then
                       (case json_loads L (arguments f) of
                          Parsed args \<Rightarrow>
                            print_stdout (''     Arguments: '' @ indent_continuation (json_dumps L args))
                        | JSONDecodeError \<Rightarrow> print_stdout (''     Arguments: '' @ arguments f)
                        | OtherError e \<Rightarrow> ([], Raised e))
                     else skip)])"

text \<open>\<^verbatim>\<open>for index, tool_call in enumerate(message.tool_calls, 1)\<close>.\<close>

fun show_tool_calls :: "'j libs \<Rightarrow> nat \<Rightarrow> tool_call list \<Rightarrow> stmt" where
  "show_tool_calls L index [] = skip"
| "show_tool_calls L index (tc # tcs) =
     block [show_tool_call L index tc, show_tool_calls L (Suc index) tcs]"

definition demo2_try :: "'j libs \<Rightarrow> globals \<Rightarrow> stmt" where
  "demo2_try L g =
     (case create L (demo2_request g) of
        Inl e \<Rightarrow> ([Create (demo2_request g)], Raised e)
      | Inr r \<Rightarrow>
          (case choices r of
             [] \<Rightarrow> ([Create (demo2_request g)], Raised index_error)
           | c # _ \<Rightarrow>
               block [([Create (demo2_request g)], Normal),
                      if truthy (content (choice_message c))
                      then block [print_stdout ''Model Reasoning:'',
                                  print_stdout (py_str (content (choice_message c))),
                                  print_stdout '''']
                      else skip,
                      (case tool_calls (choice_message c) of
                         None \<Rightarrow> skip
                       | Some [] \<Rightarrow> skip
                       | Some (tc # tcs) \<Rightarrow>
                           block [print_stdout (wrench @ '' MCP Tool Calls:''),
                                  show_tool_calls L 1 (tc # tcs),
                                  print_stdout '''']),
                      print_stdout ''Final Message:'',
                      print_stdout (dump_message L (choice_message c)),
                      print_stdout '''',
                      print_stdout (tokens_line r)]))"

definition demo2_mcp_completion :: "'j libs \<Rightarrow> globals \<Rightarrow> stmt" where
  "demo2_mcp_completion L g =
     block [print_stdout (wrench @ '' Demo 2: Chat Completion with MCP Tools''),
            print_stdout dashes,
            try_except (demo2_try L g)
              (\<lambda>error. block [print_stderr (error_line error),
                               (case status_code error of
                                  None \<Rightarrow> skip
                                | Some code \<Rightarrow>
                                    if code = 401 then print_stderr ''   Check your GROQ_API_KEY''
                                    else if code = 424
                                    then block [print_stderr ''   MCP server dependency failed'',
                                                print_stderr ''   Check that MCP servers are reachable'']
                                    else skip)]),
            print_stdout '''']"

definition demo3_request :: "globals \<Rightarrow> request" where
  "demo3_request g =
     \<lparr>model = DEFAULT_GROQ_MODEL g,
      messages = [(''user'', ''What tools do you have access to? Please list them.'')],
      req_tools = Some (tools g), max_tokens = 300\<rparr>"

definition demo3_try :: "'j libs \<Rightarrow> globals \<Rightarrow> stmt" where
  "demo3_try L g =
     (case create L (demo3_request g) of
        Inl e \<Rightarrow> ([Create (demo3_request g)], Raised e)
      | Inr r \<Rightarrow>
          block [([Create (demo3_request g)], Normal),
                 print_stdout ''Response:'',
                 (case choices r of
                    [] \<Rightarrow> ([], Raised index_error)
                  | c # _ \<Rightarrow> print_stdout (py_str (content (choice_message c)))),
                 print_stdout '''',
                 print_stdout (tokens_line r)])"

definition demo3_discover_tools :: "'j libs \<Rightarrow> globals \<Rightarrow> stmt" where
  "demo3_discover_tools L g =
     block [print_stdout (magnifier @ '' Demo 3: Tool Discovery''),
            print_stdout dashes,
            try_except (demo3_try L g) (\<lambda>error. print_stderr (error_line error)),
            print_stdout '''']"

definition demo4_request :: "globals \<Rightarrow> request" where
  "demo4_request g =
     \<lparr>model = DEFAULT_GROQ_MODEL g,
      messages = [(''user'',
        ''Can you scrape the latest news from a tech website and summarize the top story?'')],
      req_tools = Some (tools g), max_tokens = 400\<rparr>"

definition demo4_try :: "'j libs \<Rightarrow> globals \<Rightarrow> stmt" where
  "demo4_try L g =
     (case create L (demo4_request g) of
        Inl e \<Rightarrow> ([Create (demo4_request g)], Raised e)
      | Inr r \<Rightarrow>
          (case choices r of
             [] \<Rightarrow> ([Create (demo4_request g)], Raised index_error)
           | c # _ \<Rightarrow>
               block [([Create (demo4_request g)], Normal),
                      print_stdout ''Response:'',
                      if truthy (content (choice_message c))
                      then print_stdout (py_str (content (choice_message c)))
                      else print_stdout (dump_message L (choice_message c)),
                      print_stdout '''',
                      print_stdout (tokens_line r)]))"

definition demo4_skip :: "event list" where
  "demo4_skip =
     [Out (next_track @ ''  Demo 4: Skipped (Firecrawl not configured)''),
      Out ''   Set FIRECRAWL_API_KEY to enable web scraping demo'',
      Out '''']"

definition demo4_firecrawl_mcp :: "'j libs \<Rightarrow> globals \<Rightarrow> stmt" where
  "demo4_firecrawl_mcp L g =
     (if \<not> truthy (FIRECRAWL_API_KEY g) then (demo4_skip, Normal)
      else
        block [print_stdout (globe @ '' Demo 4: Firecrawl MCP Web Scraping''),
               print_stdout dashes,
               try_except (demo4_try L g)
                 (\<lambda>error. block [print_stderr (error_line error),
                                  if status_code error = Some 424
                                  then block [print_stderr ''   Firecrawl MCP server failed'',
                                              print_stderr ''   Check your FIRECRAWL_API_KEY'']
                                  else skip]),
               print_stdout ''''])"

subsection \<open>The entry point\<close>

definition summary :: "event list" where
  "summary =
     [Out equals_rule,
      Out (check_button @ '' All demos completed successfully!''),
      Out '''',
      Out ''Next steps:'',
      Out ''  - Set FIRECRAWL_API_KEY to enable web scraping'',
      Out ''  - Try different models (llama-3.1-8b-instant, etc.)'',
      Out ''  - Read docs/groq-mcp.md for more information'',
      Out equals_rule]"

definition fatal_line :: "exn \<Rightarrow> string" where
  "fatal_line error = cross_mark @ '' Fatal error: '' @ exn_str error"

text \<open>\<^verbatim>\<open>main\<close>, lines 229 to 247: the four calls and the eight prints of the summary in
  one \<^verbatim>\<open>try\<close>, and the handler that reports a fatal error and exits.\<close>

definition main :: "'j libs \<Rightarrow> globals \<Rightarrow> stmt" where
  "main L g =
     try_except
       (block [demo1_simple_completion L g,
               demo2_mcp_completion L g,
               demo3_discover_tools L g,
               demo4_firecrawl_mcp L g,
               (summary, Normal)])
       (\<lambda>error. block [print_stderr (fatal_line error), sys_exit 1])"

text \<open>The same body around four arbitrary routine calls, to study the handler for
  routines that do raise.\<close>

definition main_around :: "stmt \<Rightarrow> stmt \<Rightarrow> stmt \<Rightarrow> stmt \<Rightarrow> stmt" where
  "main_around d1 d2 d3 d4 =
     try_except (block [d1, d2, d3, d4, (summary, Normal)])
       (\<lambda>error. block [print_stderr (fatal_line error), sys_exit 1])"

text \<open>The exit status of the process: 0 when the script runs to its end, the argument of
  \<^verbatim>\<open>sys.exit\<close>, and 1 for an exception that reaches the top.\<close>

fun exit_status :: "outcome \<Rightarrow> int" where
  "exit_status Normal = 0"
| "exit_status (Exit c) = c"
| "exit_status (Raised e) = 1"

text \<open>One run of the script: the trace and the exit status.\<close>

definition script :: "(string \<rightharpoonup> string) \<Rightarrow> 'j libs \<Rightarrow> event list \<times> int" where
  "script environ L =
     (case startup L environ of
        (es, Inl c) \<Rightarrow> (es, c)
      | (es, Inr g) \<Rightarrow> (case main L g of (es', r) \<Rightarrow> (es @ es', exit_status r)))"

subsection \<open>Observations on a trace\<close>

text \<open>The completion requests of a trace, in order.\<close>

fun requests :: "event list \<Rightarrow> request list" where
  "requests [] = []"
| "requests (Create r # es) = r # requests es"
| "requests (Out s # es) = requests es"
| "requests (Err s # es) = requests es"
| "requests (NewClient k u # es) = requests es"

text \<open>The client constructions of a trace.\<close>

fun clients :: "event list \<Rightarrow> (string option \<times> string) list" where
  "clients [] = []"
| "clients (NewClient k u # es) = (k, u) # clients es"
| "clients (Out s # es) = clients es"
| "clients (Err s # es) = clients es"
| "clients (Create r # es) = clients es"

text \<open>The lines a trace writes to the error stream and to standard output.\<close>

fun stderr_lines :: "event list \<Rightarrow> string list" where
  "stderr_lines [] = []"
| "stderr_lines (Err s # es) = s # stderr_lines es"
| "stderr_lines (Out s # es) = stderr_lines es"
| "stderr_lines (NewClient k u # es) = stderr_lines es"
| "stderr_lines (Create r # es) = stderr_lines es"

fun stdout_lines :: "event list \<Rightarrow> string list" where
  "stdout_lines [] = []"
| "stdout_lines (Out s # es) = s # stdout_lines es"
| "stdout_lines (Err s # es) = stdout_lines es"
| "stdout_lines (NewClient k u # es) = stdout_lines es"
| "stdout_lines (Create r # es) = stdout_lines es"

subsection \<open>Test doubles\<close>

text \<open>Concrete environments, module states and libraries, on which the theorems below
  are instantiated: a client that answers every request with the text \<open>hello\<close> and no
  tool calls, a client that fails every request with a given status code, and a client
  that answers every request with two tool calls and no text.\<close>

definition sample_environ :: "string \<rightharpoonup> string" where
  "sample_environ = [''GROQ_API_KEY'' \<mapsto> ''gsk_test'', ''FIRECRAWL_API_KEY'' \<mapsto> ''fc-test'']"

definition sample_globals :: globals where
  "sample_globals =
     \<lparr>GROQ_API_KEY = Some ''gsk_test'', DEFAULT_GROQ_MODEL = ''llama-3.3-70b-versatile'',
      FIRECRAWL_API_KEY = Some ''fc-test'',
      tools = [hf_tool, firecrawl_tool (Some ''fc-test'')]\<rparr>"

definition hello_message :: message where
  "hello_message = \<lparr>content = Some ''hello'', tool_calls = Some []\<rparr>"

definition hello_response :: response where
  "hello_response =
     \<lparr>choices = [\<lparr>choice_message = hello_message\<rparr>], usage = Some \<lparr>total_tokens = 42\<rparr>\<rparr>"

definition recursion_error :: exn where
  "recursion_error = \<lparr>exn_str = ''maximum recursion depth exceeded'', status_code = None\<rparr>"

text \<open>A JSON library for three argument strings: a parsed value is represented by its
  dump with \<^verbatim>\<open>indent=2\<close>, and a thousand opening brackets exceed the recursion limit.\<close>

definition mock_loads :: "string \<Rightarrow> string loads_result" where
  "mock_loads s =
     (if s = ''{}'' then Parsed ''{}''
      else if s = ''[1, 2]''
      then Parsed (''['' @ CHR 0x0A # ''  1,'' @ CHR 0x0A # ''  2'' @ CHR 0x0A # '']'')
      else if s = replicate 1000 CHR ''['' then OtherError recursion_error
      else JSONDecodeError)"

definition mock_libs :: "string libs" where
  "mock_libs =
     \<lparr>new_client = (\<lambda>key url. None), stdout_error = (\<lambda>s. None),
      create = (\<lambda>req. Inr hello_response), json_loads = mock_loads,
      json_dumps = (\<lambda>j. j), dump_message = (\<lambda>m. ''{}'')\<rparr>"

definition api_error :: "int \<Rightarrow> exn" where
  "api_error code = \<lparr>exn_str = ''Error code: '' @ str_int code, status_code = Some code\<rparr>"

definition failing_libs :: "int \<Rightarrow> string libs" where
  "failing_libs code =
     \<lparr>new_client = (\<lambda>key url. None), stdout_error = (\<lambda>s. None),
      create = (\<lambda>req. Inl (api_error code)), json_loads = mock_loads,
      json_dumps = (\<lambda>j. j), dump_message = (\<lambda>m. ''{}'')\<rparr>"

text \<open>A host whose client constructor raises, and a host whose standard output takes
  ASCII only.\<close>

definition proxy_error :: exn where
  "proxy_error = \<lparr>exn_str = ''Unknown scheme for proxy URL'', status_code = None\<rparr>"



definition bad_proxy_libs :: "string libs" where
  "bad_proxy_libs =
     \<lparr>new_client = (\<lambda>key url. Some proxy_error), stdout_error = (\<lambda>s. None),
      create = (\<lambda>req. Inr hello_response), json_loads = mock_loads,
      json_dumps = (\<lambda>j. j), dump_message = (\<lambda>m. ''{}'')\<rparr>"


definition search_call :: tool_call where
  "search_call =
     \<lparr>tc_type = ''function'',
      tc_function = Some \<lparr>fc_name = ''search'', arguments = ''{}''\<rparr>\<rparr>"

definition broken_call :: tool_call where
  "broken_call =
     \<lparr>tc_type = ''function'',
      tc_function = Some \<lparr>fc_name = ''scrape'', arguments = ''not json''\<rparr>\<rparr>"





definition tool_message :: message where
  "tool_message = \<lparr>content = None, tool_calls = Some [search_call, broken_call]\<rparr>"

definition tool_response :: response where
  "tool_response = \<lparr>choices = [\<lparr>choice_message = tool_message\<rparr>], usage = None\<rparr>"

definition tool_libs :: "string libs" where
  "tool_libs =
     \<lparr>new_client = (\<lambda>key url. None), stdout_error = (\<lambda>s. None),
      create = (\<lambda>req. Inr tool_response), json_loads = mock_loads,
      json_dumps = (\<lambda>j. j), dump_message = (\<lambda>m. ''{}'')\<rparr>"




section \<open>Properties\<close>

subsection \<open>Running statements\<close>

lemma obs_append [simp]:
  "requests (xs @ ys) = requests xs @ requests ys"
  "clients (xs @ ys) = clients xs @ clients ys"
  "stderr_lines (xs @ ys) = stderr_lines xs @ stderr_lines ys"
  "stdout_lines (xs @ ys) = stdout_lines xs @ stdout_lines ys"
  by (induction xs rule: requests.induct) simp_all

lemma block_Cons:
  "block (s # ss) =
     (case snd s of
        Normal \<Rightarrow> (fst s @ fst (block ss), snd (block ss))
      | Raised e \<Rightarrow> (fst s, Raised e)
      | Exit c \<Rightarrow> (fst s, Exit c))"
  by (cases s; cases "snd s"; cases "block ss") auto

lemma try_except_unfold:
  "try_except s h =
     (case snd s of
        Raised e \<Rightarrow> (fst s @ fst (h e), snd (h e))
      | Normal \<Rightarrow> (fst s, Normal)
      | Exit c \<Rightarrow> (fst s, Exit c))"
  by (cases s; cases "snd s") (auto simp: try_except_def split: prod.splits)

lemma show_tool_call_no_exit: "snd (show_tool_call L i tc) \<noteq> Exit c"
  by (simp add: show_tool_call_def block_Cons print_stdout_def skip_def Let_def
      split: option.splits loads_result.splits)

lemma show_tool_calls_no_exit: "snd (show_tool_calls L i tcs) \<noteq> Exit c"
proof (induction tcs arbitrary: i)
  case Nil
  then show ?case by (simp add: skip_def)
next
  case (Cons tc tcs)
  show ?case
    using show_tool_call_no_exit [of L i tc c] Cons.IH [of "Suc i"]
    by (cases "snd (show_tool_call L i tc)") (auto simp: block_Cons split: outcome.splits)
qed

lemmas run_simps = block_Cons try_except_unfold print_stdout_def print_stderr_def skip_def
  sys_exit_def

lemma show_tool_call_requests: "requests (fst (show_tool_call L i tc)) = []"
  by (simp add: show_tool_call_def run_simps Let_def split: option.splits loads_result.splits)

lemma show_tool_calls_requests: "requests (fst (show_tool_calls L i tcs)) = []"
proof (induction tcs arbitrary: i)
  case Nil
  then show ?case by (simp add: skip_def)
next
  case (Cons tc tcs)
  show ?case
    using show_tool_call_requests [of L i tc] Cons.IH [of "Suc i"]
    by (cases "snd (show_tool_call L i tc)") (simp_all add: block_Cons split: outcome.splits)
qed

lemma demo1_try_outcome:
  "snd (demo1_try L g) =
     (case create L (demo1_request g) of
        Inl e \<Rightarrow> Raised e
      | Inr r \<Rightarrow> (case choices r of [] \<Rightarrow> Raised index_error | c # cs \<Rightarrow> Normal))"
  by (simp add: demo1_try_def run_simps split: sum.splits list.splits option.splits)

lemma demo1_shape:
  "demo1_simple_completion L g =
     ([Out (memo @ '' Demo 1: Simple Chat Completion (No MCP)''), Out dashes]
      @ fst (demo1_try L g)
      @ (case snd (demo1_try L g) of
           Raised e \<Rightarrow> Err (error_line e) #
              (if status_code e = Some 401 then [Err ''   Check your GROQ_API_KEY''] else [])
         | _ \<Rightarrow> [])
      @ [Out ''''], Normal)"
  by (simp add: demo1_simple_completion_def demo1_try_outcome run_simps
      split: sum.splits list.splits option.splits)

lemma demo2_try_no_exit: "snd (demo2_try L g) \<noteq> Exit c"
proof (cases "create L (demo2_request g)")
  case (Inl e)
  then show ?thesis by (simp add: demo2_try_def)
next
  case (Inr r)
  show ?thesis
  proof (cases "choices r")
    case Nil
    with Inr show ?thesis by (simp add: demo2_try_def)
  next
    case (Cons ch chs)
    show ?thesis
    proof (cases "tool_calls (choice_message ch)")
      case None
      with Inr Cons show ?thesis by (simp add: demo2_try_def run_simps)
    next
      case (Some tcs)
      show ?thesis
      proof (cases tcs)
        case Nil
        with Inr Cons Some show ?thesis by (simp add: demo2_try_def run_simps)
      next
        case (Cons tc tcs')
        have "snd (show_tool_calls L 1 (tc # tcs')) \<noteq> Exit c"
          by (rule show_tool_calls_no_exit)
        with Inr \<open>choices r = ch # chs\<close> Some Cons show ?thesis
          by (cases "snd (show_tool_calls L 1 (tc # tcs'))")
            (simp_all add: demo2_try_def run_simps del: show_tool_calls.simps)
      qed
    qed
  qed
qed

lemma demo2_shape:
  "demo2_mcp_completion L g =
     ([Out (wrench @ '' Demo 2: Chat Completion with MCP Tools''), Out dashes]
      @ fst (demo2_try L g)
      @ (case snd (demo2_try L g) of
           Raised e \<Rightarrow> Err (error_line e) #
              (if status_code e = Some 401 then [Err ''   Check your GROQ_API_KEY'']
               else if status_code e = Some 424
               then [Err ''   MCP server dependency failed'',
                     Err ''   Check that MCP servers are reachable'']
               else [])
         | _ \<Rightarrow> [])
      @ [Out ''''], Normal)"
proof (cases "snd (demo2_try L g)")
  case Normal
  then show ?thesis by (simp add: demo2_mcp_completion_def run_simps)
next
  case (Raised e)
  then show ?thesis
    by (simp add: demo2_mcp_completion_def run_simps split: option.splits)
next
  case (Exit c)
  with demo2_try_no_exit [of L g c] show ?thesis by simp
qed

lemma demo3_try_outcome:
  "snd (demo3_try L g) =
     (case create L (demo3_request g) of
        Inl e \<Rightarrow> Raised e
      | Inr r \<Rightarrow> (case choices r of [] \<Rightarrow> Raised index_error | c # cs \<Rightarrow> Normal))"
  by (simp add: demo3_try_def run_simps split: sum.splits list.splits option.splits)

lemma demo3_shape:
  "demo3_discover_tools L g =
     ([Out (magnifier @ '' Demo 3: Tool Discovery''), Out dashes]
      @ fst (demo3_try L g)
      @ (case snd (demo3_try L g) of Raised e \<Rightarrow> [Err (error_line e)] | _ \<Rightarrow> [])
      @ [Out ''''], Normal)"
  by (simp add: demo3_discover_tools_def demo3_try_outcome run_simps
      split: sum.splits list.splits option.splits)

lemma demo4_try_outcome:
  "snd (demo4_try L g) =
     (case create L (demo4_request g) of
        Inl e \<Rightarrow> Raised e
      | Inr r \<Rightarrow> (case choices r of [] \<Rightarrow> Raised index_error | c # cs \<Rightarrow> Normal))"
  by (simp add: demo4_try_def run_simps split: sum.splits list.splits option.splits)

lemma demo4_shape:
  "demo4_firecrawl_mcp L g =
     (if \<not> truthy (FIRECRAWL_API_KEY g) then (demo4_skip, Normal)
      else
       ([Out (globe @ '' Demo 4: Firecrawl MCP Web Scraping''), Out dashes]
        @ fst (demo4_try L g)
        @ (case snd (demo4_try L g) of
             Raised e \<Rightarrow> Err (error_line e) #
                (if status_code e = Some 424
                 then [Err ''   Firecrawl MCP server failed'',
                       Err ''   Check your FIRECRAWL_API_KEY'']
                 else [])
           | _ \<Rightarrow> [])
        @ [Out ''''], Normal))"
  by (simp add: demo4_firecrawl_mcp_def demo4_try_outcome run_simps
      split: sum.splits list.splits option.splits)

lemma main_trace:
  "main L g =
     (fst (demo1_simple_completion L g) @ fst (demo2_mcp_completion L g)
        @ fst (demo3_discover_tools L g) @ fst (demo4_firecrawl_mcp L g) @ summary, Normal)"
  by (simp add: main_def demo1_shape demo2_shape demo3_shape demo4_shape run_simps)

lemma demo4_skipped:
  "\<not> truthy (FIRECRAWL_API_KEY g) \<Longrightarrow> demo4_firecrawl_mcp L g = (demo4_skip, Normal)"
  by (simp add: demo4_shape)

lemma demo4_run:
  "truthy (FIRECRAWL_API_KEY g) \<Longrightarrow>
   demo4_firecrawl_mcp L g =
       ([Out (globe @ '' Demo 4: Firecrawl MCP Web Scraping''), Out dashes]
        @ fst (demo4_try L g)
        @ (case snd (demo4_try L g) of
             Raised e \<Rightarrow> Err (error_line e) #
                (if status_code e = Some 424
                 then [Err ''   Firecrawl MCP server failed'',
                       Err ''   Check your FIRECRAWL_API_KEY'']
                 else [])
           | _ \<Rightarrow> [])
        @ [Out ''''], Normal)"
  by (simp add: demo4_shape)

lemma ends_with: "\<exists>es. (a @ b @ c @ [x], r) = (es @ [x], r)"
  by (rule exI [of _ "a @ b @ c"]) simp

lemma str_int_0: "str_int 0 = ''0''"
  by (simp add: str_int_def str_nat.simps digit_char_def)

lemma str_int_42: "str_int 42 = ''42''"
  by (simp add: str_int_def str_nat.simps digit_char_def)

subsection \<open>Routine 1 on a fixed completion\<close>

text \<open>
  Claim C7. When the completion call of routine 1 returns a response whose first choice
  carries the message text \<open>hello\<close>, the routine prints its two header lines, the line
  \<open>Response:\<close>, the line \<open>hello\<close> exactly, a blank line, the token line and the trailing
  blank line, and nothing else. The token line reports \<open>total_tokens\<close> of the usage field
  when the response has one, and 0 when it has none. The routine does not read the tool
  calls of the message, so this holds for a message with zero tool calls as for any other.
\<close>

theorem demo1_hello_output:
  assumes "create L (demo1_request g) = Inr r"
    and "choices r = c # cs"
    and "content (choice_message c) = Some ''hello''"
  shows "demo1_simple_completion L g =
     ([Out (memo @ '' Demo 1: Simple Chat Completion (No MCP)''),
       Out dashes,
       Create (demo1_request g),
       Out ''Response:'',
       Out ''hello'',
       Out '''',
       Out (check_mark @ '' Completed in ''
              @ (case usage r of None \<Rightarrow> ''0'' | Some u \<Rightarrow> str_int (total_tokens u))
              @ '' tokens''),
       Out ''''], Normal)"
proof -
  have body: "demo1_try L g =
     ([Create (demo1_request g), Out ''Response:'', Out ''hello'', Out '''',
       Out (tokens_line r)], Normal)"
    using assms by (simp add: demo1_try_def run_simps py_str_def)
  have line: "tokens_line r = check_mark @ '' Completed in ''
      @ (case usage r of None \<Rightarrow> ''0'' | Some u \<Rightarrow> str_int (total_tokens u)) @ '' tokens''"
    by (simp add: tokens_line_def str_int_0 split: option.splits)
  show ?thesis
    by (simp add: demo1_shape body line)
qed

text \<open>C7 on the client that answers \<open>hello\<close> with a usage of 42 tokens, and on the same
  answer without its usage field.\<close>

theorem demo1_hello_output_witness:
  "demo1_simple_completion mock_libs sample_globals =
     ([Out (memo @ '' Demo 1: Simple Chat Completion (No MCP)''),
       Out dashes,
       Create (demo1_request sample_globals),
       Out ''Response:'',
       Out ''hello'',
       Out '''',
       Out (check_mark @ '' Completed in 42 tokens''),
       Out ''''], Normal)
   \<and> demo1_simple_completion
        (mock_libs\<lparr>create := (\<lambda>req. Inr (hello_response\<lparr>usage := None\<rparr>))\<rparr>) sample_globals =
     ([Out (memo @ '' Demo 1: Simple Chat Completion (No MCP)''),
       Out dashes,
       Create (demo1_request sample_globals),
       Out ''Response:'',
       Out ''hello'',
       Out '''',
       Out (check_mark @ '' Completed in 0 tokens''),
       Out ''''], Normal)"
proof -
  have c: "create mock_libs (demo1_request sample_globals) = Inr hello_response"
    by (simp add: mock_libs_def)
  have ch: "choices hello_response = \<lparr>choice_message = hello_message\<rparr> # []"
    by (simp add: hello_response_def)
  have co: "content (choice_message \<lparr>choice_message = hello_message\<rparr>) = Some ''hello''"
    by (simp add: hello_message_def)
  have with_usage: "demo1_simple_completion mock_libs sample_globals =
     ([Out (memo @ '' Demo 1: Simple Chat Completion (No MCP)''),
       Out dashes,
       Create (demo1_request sample_globals),
       Out ''Response:'',
       Out ''hello'',
       Out '''',
       Out (check_mark @ '' Completed in 42 tokens''),
       Out ''''], Normal)"
    using demo1_hello_output [OF c ch co] by (simp add: hello_response_def str_int_42)
  let ?L = "mock_libs\<lparr>create := (\<lambda>req. Inr (hello_response\<lparr>usage := None\<rparr>))\<rparr>"
  have c': "create ?L (demo1_request sample_globals) = Inr (hello_response\<lparr>usage := None\<rparr>)"
    by simp
  have ch': "choices (hello_response\<lparr>usage := None\<rparr>) = \<lparr>choice_message = hello_message\<rparr> # []"
    by (simp add: hello_response_def)
  have without_usage: "demo1_simple_completion ?L sample_globals =
     ([Out (memo @ '' Demo 1: Simple Chat Completion (No MCP)''),
       Out dashes,
       Create (demo1_request sample_globals),
       Out ''Response:'',
       Out ''hello'',
       Out '''',
       Out (check_mark @ '' Completed in 0 tokens''),
       Out ''''], Normal)"
    using demo1_hello_output [OF c' ch' co] by simp
  from with_usage without_usage show ?thesis by (intro conjI)
qed

subsection \<open>The trailing blank line\<close>

text \<open>
  Claim C9. Each of the four routines ends normally and the last thing it does is print
  a blank line, whatever the client answers: after a response, after a failed request,
  and, for routine 4, on the branch that skips the request.
\<close>

theorem trailing_blank_line:
  "(\<exists>es. demo1_simple_completion L g = (es @ [Out ''''], Normal))
   \<and> (\<exists>es. demo2_mcp_completion L g = (es @ [Out ''''], Normal))
   \<and> (\<exists>es. demo3_discover_tools L g = (es @ [Out ''''], Normal))
   \<and> (\<exists>es. demo4_firecrawl_mcp L g = (es @ [Out ''''], Normal))"
proof -
  have d1: "\<exists>es. demo1_simple_completion L g = (es @ [Out ''''], Normal)"
    by (subst demo1_shape) (rule ends_with)
  have d2: "\<exists>es. demo2_mcp_completion L g = (es @ [Out ''''], Normal)"
    by (subst demo2_shape) (rule ends_with)
  have d3: "\<exists>es. demo3_discover_tools L g = (es @ [Out ''''], Normal)"
    by (subst demo3_shape) (rule ends_with)
  have d4: "\<exists>es. demo4_firecrawl_mcp L g = (es @ [Out ''''], Normal)"
  proof (cases "truthy (FIRECRAWL_API_KEY g)")
    case True
    show ?thesis by (subst demo4_run [OF True]) (rule ends_with)
  next
    case False
    have "(demo4_skip, Normal) = (butlast demo4_skip @ [Out ''''], Normal)"
      by (simp add: demo4_skip_def)
    then show ?thesis by (subst demo4_skipped [OF False]) (rule exI)
  qed
  from d1 d2 d3 d4 show ?thesis by (intro conjI)
qed

subsection \<open>The start-up check of the API key\<close>


lemma startup_fatal:
  "\<not> truthy (environ ''GROQ_API_KEY'') \<Longrightarrow> startup L environ = (usage_message, Inl 1)"
  by (simp add: startup_def Let_def)


lemma startup_body_written:
  assumes "new_client L groq ''https://api.groq.com/openai/v1'' = None"
    and "\<forall>s. stdout_error L s = None"
  shows "startup_body L groq mdl firecrawl =
     ([NewClient groq ''https://api.groq.com/openai/v1'',
       Out (rocket @ '' Groq MCP Demo - Python''),
       Out equals_rule,
       Out (''Model: '' @ mdl),
       Out (''Groq API: Configured '' @ check_mark),
       Out (''Huggingface MCP: Enabled '' @ check_mark),
       Out (if truthy firecrawl then ''Firecrawl MCP: Enabled '' @ check_mark
            else ''Firecrawl MCP: Disabled (no API key)''),
       Out equals_rule,
       Out ''''], Normal)"
  using assms
  by (simp add: startup_body_def construct_client_def print_banner_def block_Cons)

lemma startup_body_falsy:
  "\<not> truthy firecrawl \<Longrightarrow> startup_body L groq mdl firecrawl = startup_body L groq mdl None"
  by (simp add: startup_body_def truthy_def)

lemma startup_globals:
  "snd (startup L environ) = Inr g \<Longrightarrow>
   truthy (environ ''GROQ_API_KEY'')
   \<and> GROQ_API_KEY g = environ ''GROQ_API_KEY''
   \<and> FIRECRAWL_API_KEY g = environ ''FIRECRAWL_API_KEY''
   \<and> DEFAULT_GROQ_MODEL g =
       (case environ ''DEFAULT_GROQ_MODEL'' of None \<Rightarrow> ''llama-3.3-70b-versatile'' | Some m \<Rightarrow> m)
   \<and> tools g = (if truthy (environ ''FIRECRAWL_API_KEY'')
                then [hf_tool, firecrawl_tool (environ ''FIRECRAWL_API_KEY'')] else [hf_tool])"
  by (auto simp: startup_def Let_def split: if_splits prod.splits outcome.splits)



lemma sample_key: "sample_environ ''GROQ_API_KEY'' = Some ''gsk_test'' \<and> ''gsk_test'' \<noteq> []"
  by (simp add: sample_environ_def)




subsection \<open>The tool list\<close>

lemmas startup_eval = startup_def Let_def startup_body_def construct_client_def
  print_banner_def block_Cons mock_libs_def

lemma demo1_requests:
  "requests (fst (demo1_simple_completion L g)) = [demo1_request g]"
  by (simp add: demo1_shape demo1_try_def run_simps split: sum.splits list.splits outcome.splits)

lemma block_requests_nil:
  "(\<forall>s\<in>set ss. requests (fst s) = []) \<Longrightarrow> requests (fst (block ss)) = []"
  by (induction ss) (auto simp: block_Cons split: outcome.splits)

lemma requests_block_Cons_normal:
  "requests (fst (block ((es, Normal) # ss))) = requests es @ requests (fst (block ss))"
  by (cases "block ss") simp

lemma demo2_try_requests: "requests (fst (demo2_try L g)) = [demo2_request g]"
  by (simp add: demo2_try_def requests_block_Cons_normal block_requests_nil print_stdout_def
      skip_def show_tool_calls_requests
      split: sum.splits list.splits option.splits
      del: show_tool_calls.simps block.simps)

lemma demo2_requests:
  "requests (fst (demo2_mcp_completion L g)) = [demo2_request g]"
  by (simp add: demo2_shape demo2_try_requests split: outcome.splits)

lemma demo3_requests:
  "requests (fst (demo3_discover_tools L g)) = [demo3_request g]"
  by (simp add: demo3_shape demo3_try_def run_simps split: sum.splits list.splits outcome.splits)

lemma demo4_try_requests: "requests (fst (demo4_try L g)) = [demo4_request g]"
  by (simp add: demo4_try_def run_simps split: sum.splits list.splits option.splits)

lemma demo4_requests:
  "requests (fst (demo4_firecrawl_mcp L g)) =
     (if truthy (FIRECRAWL_API_KEY g) then [demo4_request g] else [])"
  by (simp add: demo4_run demo4_skipped demo4_try_requests demo4_skip_def split: outcome.splits)

text \<open>
  Claim C2, as amended. After a start-up that runs to its end, the tool list holds
  exactly the Huggingface descriptor, which has no headers, when
  \<^verbatim>\<open>FIRECRAWL_API_KEY\<close> is unset or set to the empty string; when it is set to a
  non-empty value \<open>k\<close>, the list holds the Huggingface descriptor and then the Firecrawl
  descriptor, whose \<^verbatim>\<open>Authorization\<close> header is \<^verbatim>\<open>Bearer\<close> followed by a space and
  \<open>k\<close>. Routines 2 and 3 send exactly one request each, routine 4 sends one request or
  none, and every such request carries this list unchanged as its \<^verbatim>\<open>tools\<close> argument.
\<close>

theorem tools_by_firecrawl_key:
  assumes "snd (startup L environ) = Inr g"
  shows "(environ ''FIRECRAWL_API_KEY'' = None \<or> environ ''FIRECRAWL_API_KEY'' = Some []
            \<longrightarrow> tools g = [hf_tool])
    \<and> (\<forall>k. environ ''FIRECRAWL_API_KEY'' = Some k \<and> k \<noteq> []
            \<longrightarrow> tools g =
               [hf_tool,
                \<lparr>tool_type = ''mcp'', server_url = ''https://mcp.firecrawl.dev/'',
                 headers = Some [(''Authorization'', ''Bearer '' @ k)]\<rparr>])
    \<and> hf_tool = \<lparr>tool_type = ''mcp'', server_url = ''https://huggingface.co/mcp'',
                  headers = None\<rparr>
    \<and> requests (fst (demo2_mcp_completion L g)) = [demo2_request g]
    \<and> req_tools (demo2_request g) = Some (tools g)
    \<and> requests (fst (demo3_discover_tools L g)) = [demo3_request g]
    \<and> req_tools (demo3_request g) = Some (tools g)
    \<and> requests (fst (demo4_firecrawl_mcp L g)) =
          (if truthy (FIRECRAWL_API_KEY g) then [demo4_request g] else [])
    \<and> req_tools (demo4_request g) = Some (tools g)"
proof -
  note g = startup_globals [OF assms]
  have one: "environ ''FIRECRAWL_API_KEY'' = None \<or> environ ''FIRECRAWL_API_KEY'' = Some []
            \<longrightarrow> tools g = [hf_tool]"
    using g by (auto simp: truthy_def)
  have two: "\<forall>k. environ ''FIRECRAWL_API_KEY'' = Some k \<and> k \<noteq> []
            \<longrightarrow> tools g =
               [hf_tool,
                \<lparr>tool_type = ''mcp'', server_url = ''https://mcp.firecrawl.dev/'',
                 headers = Some [(''Authorization'', ''Bearer '' @ k)]\<rparr>]"
    using g by (auto simp: truthy_def firecrawl_tool_def py_str_def)
  have reqs: "req_tools (demo2_request g) = Some (tools g)"
    "req_tools (demo3_request g) = Some (tools g)"
    "req_tools (demo4_request g) = Some (tools g)"
    by (simp_all add: demo2_request_def demo3_request_def demo4_request_def)
  from one two hf_tool_def demo2_requests demo3_requests demo4_requests reqs
  show ?thesis by (intro conjI)
qed

text \<open>C2 on the environment with both keys set, and on the environment with
  \<^verbatim>\<open>GROQ_API_KEY\<close> alone.\<close>

theorem tools_by_firecrawl_key_witness:
  "tools sample_globals =
     [hf_tool,
      \<lparr>tool_type = ''mcp'', server_url = ''https://mcp.firecrawl.dev/'',
       headers = Some [(''Authorization'', ''Bearer fc-test'')]\<rparr>]
   \<and> requests (fst (demo4_firecrawl_mcp mock_libs sample_globals)) = [demo4_request sample_globals]
   \<and> req_tools (demo4_request sample_globals) = Some (tools sample_globals)
   \<and> tools (sample_globals\<lparr>FIRECRAWL_API_KEY := None, tools := [hf_tool]\<rparr>) = [hf_tool]
   \<and> requests (fst (demo4_firecrawl_mcp mock_libs
        (sample_globals\<lparr>FIRECRAWL_API_KEY := None, tools := [hf_tool]\<rparr>))) = []"
proof -
  have s: "snd (startup mock_libs sample_environ) = Inr sample_globals"
    by (simp add: startup_eval sample_environ_def sample_globals_def truthy_def)
  have k: "sample_environ ''FIRECRAWL_API_KEY'' = Some ''fc-test'' \<and> ''fc-test'' \<noteq> []"
    by (simp add: sample_environ_def)
  have t: "truthy (FIRECRAWL_API_KEY sample_globals)"
    by (simp add: sample_globals_def truthy_def)
  have both: "tools sample_globals =
     [hf_tool,
      \<lparr>tool_type = ''mcp'', server_url = ''https://mcp.firecrawl.dev/'',
       headers = Some [(''Authorization'', ''Bearer fc-test'')]\<rparr>]
   \<and> requests (fst (demo4_firecrawl_mcp mock_libs sample_globals)) = [demo4_request sample_globals]
   \<and> req_tools (demo4_request sample_globals) = Some (tools sample_globals)"
    using tools_by_firecrawl_key [OF s] k t by auto
  let ?g = "sample_globals\<lparr>FIRECRAWL_API_KEY := None, tools := [hf_tool]\<rparr>"
  have s': "snd (startup mock_libs [''GROQ_API_KEY'' \<mapsto> ''gsk_test'']) = Inr ?g"
    by (simp add: startup_eval sample_globals_def truthy_def)
  have k': "[''GROQ_API_KEY'' \<mapsto> ''gsk_test''] ''FIRECRAWL_API_KEY'' = None"
    by simp
  have t': "\<not> truthy (FIRECRAWL_API_KEY ?g)"
    by (simp add: truthy_def)
  have one: "tools ?g = [hf_tool] \<and> requests (fst (demo4_firecrawl_mcp mock_libs ?g)) = []"
    using tools_by_firecrawl_key [OF s'] k' t' by auto
  from both one show ?thesis by simp
qed

text \<open>Claim C2 as stated promises two descriptors whenever \<^verbatim>\<open>FIRECRAWL_API_KEY\<close> is
  set. Set to the empty string, the variable is set, and the tool list holds the
  Huggingface descriptor alone.\<close>

theorem tools_empty_firecrawl_key_counterexample:
  "[''GROQ_API_KEY'' \<mapsto> ''gsk_test'', ''FIRECRAWL_API_KEY'' \<mapsto> ''''] ''FIRECRAWL_API_KEY''
     = Some ''''
   \<and> snd (startup mock_libs [''GROQ_API_KEY'' \<mapsto> ''gsk_test'', ''FIRECRAWL_API_KEY'' \<mapsto> ''''])
     = Inr \<lparr>GROQ_API_KEY = Some ''gsk_test'', DEFAULT_GROQ_MODEL = ''llama-3.3-70b-versatile'',
            FIRECRAWL_API_KEY = Some '''', tools = [hf_tool]\<rparr>"
  by (simp add: startup_eval truthy_def)

subsection \<open>Empty values\<close>

lemma main_depends:
  assumes "DEFAULT_GROQ_MODEL g = DEFAULT_GROQ_MODEL g'"
    and "tools g = tools g'"
    and "truthy (FIRECRAWL_API_KEY g) = truthy (FIRECRAWL_API_KEY g')"
  shows "main L g = main L g'"
proof -
  have r: "demo1_request g = demo1_request g'" "demo2_request g = demo2_request g'"
    "demo3_request g = demo3_request g'" "demo4_request g = demo4_request g'"
    using assms by (simp_all add: demo1_request_def demo2_request_def demo3_request_def
        demo4_request_def)
  have "demo1_simple_completion L g = demo1_simple_completion L g'"
    unfolding demo1_simple_completion_def demo1_try_def r by (rule refl)
  moreover have "demo2_mcp_completion L g = demo2_mcp_completion L g'"
    unfolding demo2_mcp_completion_def demo2_try_def r by (rule refl)
  moreover have "demo3_discover_tools L g = demo3_discover_tools L g'"
    unfolding demo3_discover_tools_def demo3_try_def r by (rule refl)
  moreover have "demo4_firecrawl_mcp L g = demo4_firecrawl_mcp L g'"
    unfolding demo4_firecrawl_mcp_def demo4_try_def r assms(3) by (rule refl)
  ultimately show ?thesis by (simp add: main_def)
qed

lemma script_fatal:
  "\<not> truthy (environ ''GROQ_API_KEY'') \<Longrightarrow> script environ L = (usage_message, 1)"
  by (simp add: script_def startup_fatal)

lemma script_firecrawl_falsy:
  assumes "\<not> truthy (environ ''FIRECRAWL_API_KEY'')"
  shows "script environ L = script (environ(''FIRECRAWL_API_KEY'' := None)) L"
proof (cases "truthy (environ ''GROQ_API_KEY'')")
  case False
  then show ?thesis by (simp add: script_fatal)
next
  case True
  let ?env' = "environ(''FIRECRAWL_API_KEY'' := None)"
  let ?mdl = "case environ ''DEFAULT_GROQ_MODEL'' of
                None \<Rightarrow> ''llama-3.3-70b-versatile'' | Some m \<Rightarrow> m"
  let ?g = "\<lambda>f. \<lparr>GROQ_API_KEY = environ ''GROQ_API_KEY'', DEFAULT_GROQ_MODEL = ?mdl,
        FIRECRAWL_API_KEY = f, tools = [hf_tool]\<rparr>"
  obtain es r where b: "startup_body L (environ ''GROQ_API_KEY'') ?mdl
      (environ ''FIRECRAWL_API_KEY'') = (es, r)"
    by (cases "startup_body L (environ ''GROQ_API_KEY'') ?mdl (environ ''FIRECRAWL_API_KEY'')")
  with startup_body_falsy [OF assms, of L "environ ''GROQ_API_KEY''" ?mdl]
  have b': "startup_body L (environ ''GROQ_API_KEY'') ?mdl None = (es, r)"
    by simp
  have m: "main L (?g (environ ''FIRECRAWL_API_KEY'')) = main L (?g None)"
    using assms by (intro main_depends) (simp_all add: truthy_def)
  show ?thesis
  proof (cases r)
    case Normal
    with True assms b b' m show ?thesis
      by (simp add: script_def startup_def Let_def truthy_def)
  next
    case (Raised e)
    with True assms b b' show ?thesis
      by (simp add: script_def startup_def Let_def truthy_def)
  next
    case (Exit c)
    with True assms b b' show ?thesis
      by (simp add: script_def startup_def Let_def truthy_def)
  qed
qed

text \<open>
  Claim C10. At each of the three checks an empty value acts as an absent one. With
  \<^verbatim>\<open>GROQ_API_KEY\<close> empty, as with the key removed, start-up prints the usage message and
  the process exits with status 1. With \<^verbatim>\<open>FIRECRAWL_API_KEY\<close> empty the whole run, its
  trace and its exit status, is the run with the variable removed: the tool list holds one
  descriptor and routine 4 takes its skip branch.
\<close>

theorem empty_value_like_absent:
  "startup L (environ(''GROQ_API_KEY'' \<mapsto> [])) = (usage_message, Inl 1)
   \<and> startup L (environ(''GROQ_API_KEY'' := None)) = (usage_message, Inl 1)
   \<and> script (environ(''GROQ_API_KEY'' \<mapsto> [])) L = (usage_message, 1)
   \<and> script (environ(''GROQ_API_KEY'' := None)) L = (usage_message, 1)
   \<and> script (environ(''FIRECRAWL_API_KEY'' \<mapsto> [])) L
       = script (environ(''FIRECRAWL_API_KEY'' := None)) L
   \<and> (\<forall>g. snd (startup L (environ(''FIRECRAWL_API_KEY'' \<mapsto> []))) = Inr g
          \<longrightarrow> tools g = [hf_tool] \<and> demo4_firecrawl_mcp L g = (demo4_skip, Normal))
   \<and> (\<forall>g. snd (startup L (environ(''FIRECRAWL_API_KEY'' := None))) = Inr g
          \<longrightarrow> tools g = [hf_tool] \<and> demo4_firecrawl_mcp L g = (demo4_skip, Normal))"
proof -
  have g1: "startup L (environ(''GROQ_API_KEY'' \<mapsto> [])) = (usage_message, Inl 1)"
    by (rule startup_fatal) (simp add: truthy_def)
  have g2: "startup L (environ(''GROQ_API_KEY'' := None)) = (usage_message, Inl 1)"
    by (rule startup_fatal) (simp add: truthy_def)
  have s1: "script (environ(''GROQ_API_KEY'' \<mapsto> [])) L = (usage_message, 1)"
    by (rule script_fatal) (simp add: truthy_def)
  have s2: "script (environ(''GROQ_API_KEY'' := None)) L = (usage_message, 1)"
    by (rule script_fatal) (simp add: truthy_def)
  have f0: "script (environ(''FIRECRAWL_API_KEY'' \<mapsto> [])) L
       = script (environ(''FIRECRAWL_API_KEY'' := None)) L"
    using script_firecrawl_falsy [of "environ(''FIRECRAWL_API_KEY'' \<mapsto> [])" L]
    by (simp add: truthy_def)
  have f1: "\<forall>g. snd (startup L (environ(''FIRECRAWL_API_KEY'' \<mapsto> []))) = Inr g
          \<longrightarrow> tools g = [hf_tool] \<and> demo4_firecrawl_mcp L g = (demo4_skip, Normal)"
  proof (intro allI impI)
    fix g
    assume "snd (startup L (environ(''FIRECRAWL_API_KEY'' \<mapsto> []))) = Inr g"
    from startup_globals [OF this]
    have "tools g = [hf_tool]" and "\<not> truthy (FIRECRAWL_API_KEY g)"
      by (simp_all add: truthy_def)
    then show "tools g = [hf_tool] \<and> demo4_firecrawl_mcp L g = (demo4_skip, Normal)"
      by (simp add: demo4_skipped)
  qed
  have f2: "\<forall>g. snd (startup L (environ(''FIRECRAWL_API_KEY'' := None))) = Inr g
          \<longrightarrow> tools g = [hf_tool] \<and> demo4_firecrawl_mcp L g = (demo4_skip, Normal)"
  proof (intro allI impI)
    fix g
    assume "snd (startup L (environ(''FIRECRAWL_API_KEY'' := None))) = Inr g"
    from startup_globals [OF this]
    have "tools g = [hf_tool]" and "\<not> truthy (FIRECRAWL_API_KEY g)"
      by (simp_all add: truthy_def)
    then show "tools g = [hf_tool] \<and> demo4_firecrawl_mcp L g = (demo4_skip, Normal)"
      by (simp add: demo4_skipped)
  qed
  from g1 g2 s1 s2 f0 f1 f2 show ?thesis by (intro conjI)
qed

text \<open>C10 on the sample environment with one key, then the other, set to the empty
  string.\<close>

theorem empty_value_like_absent_witness:
  "script (sample_environ(''GROQ_API_KEY'' \<mapsto> [])) mock_libs = (usage_message, 1)
   \<and> tools \<lparr>GROQ_API_KEY = Some ''gsk_test'', DEFAULT_GROQ_MODEL = ''llama-3.3-70b-versatile'',
            FIRECRAWL_API_KEY = Some [], tools = [hf_tool]\<rparr> = [hf_tool]
   \<and> demo4_firecrawl_mcp mock_libs
        \<lparr>GROQ_API_KEY = Some ''gsk_test'', DEFAULT_GROQ_MODEL = ''llama-3.3-70b-versatile'',
         FIRECRAWL_API_KEY = Some [], tools = [hf_tool]\<rparr> = (demo4_skip, Normal)
   \<and> demo4_firecrawl_mcp mock_libs
        \<lparr>GROQ_API_KEY = Some ''gsk_test'', DEFAULT_GROQ_MODEL = ''llama-3.3-70b-versatile'',
         FIRECRAWL_API_KEY = None, tools = [hf_tool]\<rparr> = (demo4_skip, Normal)
   \<and> script (sample_environ(''FIRECRAWL_API_KEY'' \<mapsto> [])) mock_libs
       = script (sample_environ(''FIRECRAWL_API_KEY'' := None)) mock_libs"
proof -
  have s: "snd (startup mock_libs (sample_environ(''FIRECRAWL_API_KEY'' \<mapsto> [])))
     = Inr \<lparr>GROQ_API_KEY = Some ''gsk_test'', DEFAULT_GROQ_MODEL = ''llama-3.3-70b-versatile'',
            FIRECRAWL_API_KEY = Some [], tools = [hf_tool]\<rparr>"
    by (simp add: startup_eval sample_environ_def truthy_def)
  have s': "snd (startup mock_libs (sample_environ(''FIRECRAWL_API_KEY'' := None)))
     = Inr \<lparr>GROQ_API_KEY = Some ''gsk_test'', DEFAULT_GROQ_MODEL = ''llama-3.3-70b-versatile'',
            FIRECRAWL_API_KEY = None, tools = [hf_tool]\<rparr>"
    by (simp add: startup_eval sample_environ_def truthy_def)
  show ?thesis
    using empty_value_like_absent [where L = mock_libs and environ = sample_environ] s s' by simp
qed

subsection \<open>Failed requests\<close>

lemma demo1_failed:
  "create L (demo1_request g) = Inl e \<Longrightarrow>
   demo1_simple_completion L g =
     ([Out (memo @ '' Demo 1: Simple Chat Completion (No MCP)''), Out dashes,
       Create (demo1_request g), Err (error_line e)]
      @ (if status_code e = Some 401 then [Err ''   Check your GROQ_API_KEY''] else [])
      @ [Out ''''], Normal)"
  by (simp add: demo1_shape demo1_try_def)

lemma demo2_failed:
  "create L (demo2_request g) = Inl e \<Longrightarrow>
   demo2_mcp_completion L g =
     ([Out (wrench @ '' Demo 2: Chat Completion with MCP Tools''), Out dashes,
       Create (demo2_request g), Err (error_line e)]
      @ (if status_code e = Some 401 then [Err ''   Check your GROQ_API_KEY'']
         else if status_code e = Some 424
         then [Err ''   MCP server dependency failed'',
               Err ''   Check that MCP servers are reachable'']
         else [])
      @ [Out ''''], Normal)"
  by (simp add: demo2_shape demo2_try_def)

lemma demo3_failed:
  "create L (demo3_request g) = Inl e \<Longrightarrow>
   demo3_discover_tools L g =
     ([Out (magnifier @ '' Demo 3: Tool Discovery''), Out dashes,
       Create (demo3_request g), Err (error_line e), Out ''''], Normal)"
  by (simp add: demo3_shape demo3_try_def)

lemma demo4_failed:
  "truthy (FIRECRAWL_API_KEY g) \<Longrightarrow> create L (demo4_request g) = Inl e \<Longrightarrow>
   demo4_firecrawl_mcp L g =
     ([Out (globe @ '' Demo 4: Firecrawl MCP Web Scraping''), Out dashes,
       Create (demo4_request g), Err (error_line e)]
      @ (if status_code e = Some 424
         then [Err ''   Firecrawl MCP server failed'', Err ''   Check your FIRECRAWL_API_KEY'']
         else [])
      @ [Out ''''], Normal)"
  by (simp add: demo4_run demo4_try_def)

text \<open>
  Claim C3. In each of the four routines, when the completion call raises an exception,
  the routine ends normally, and the first line it writes to the error stream is the
  report of that exception: the cross mark, the word \<open>Error:\<close> and the text of the
  exception (routine 4 sends a request only when Firecrawl is configured). Whatever the
  client does, \<open>main\<close> runs the four routines one after the other, each to its end, and
  ends normally: its trace starts with the four traces in order, and it holds the
  requests of routines 1, 2 and 3, and the request of routine 4 when Firecrawl is
  configured.
\<close>

theorem errors_caught_locally:
  "(create L (demo1_request g) = Inl e \<longrightarrow>
      snd (demo1_simple_completion L g) = Normal
      \<and> (\<exists>hints. stderr_lines (fst (demo1_simple_completion L g)) =
            ([CHR 0xE2, CHR 0x9D, CHR 0x8C] @ '' Error: '' @ exn_str e) # hints))
   \<and> (create L (demo2_request g) = Inl e \<longrightarrow>
      snd (demo2_mcp_completion L g) = Normal
      \<and> (\<exists>hints. stderr_lines (fst (demo2_mcp_completion L g)) =
            ([CHR 0xE2, CHR 0x9D, CHR 0x8C] @ '' Error: '' @ exn_str e) # hints))
   \<and> (create L (demo3_request g) = Inl e \<longrightarrow>
      snd (demo3_discover_tools L g) = Normal
      \<and> (\<exists>hints. stderr_lines (fst (demo3_discover_tools L g)) =
            ([CHR 0xE2, CHR 0x9D, CHR 0x8C] @ '' Error: '' @ exn_str e) # hints))
   \<and> (truthy (FIRECRAWL_API_KEY g) \<and> create L (demo4_request g) = Inl e \<longrightarrow>
      snd (demo4_firecrawl_mcp L g) = Normal
      \<and> (\<exists>hints. stderr_lines (fst (demo4_firecrawl_mcp L g)) =
            ([CHR 0xE2, CHR 0x9D, CHR 0x8C] @ '' Error: '' @ exn_str e) # hints))
   \<and> (\<exists>rest. main L g =
         (fst (demo1_simple_completion L g) @ fst (demo2_mcp_completion L g)
            @ fst (demo3_discover_tools L g) @ fst (demo4_firecrawl_mcp L g) @ rest, Normal))
   \<and> requests (fst (main L g)) =
       [demo1_request g, demo2_request g, demo3_request g]
         @ (if truthy (FIRECRAWL_API_KEY g) then [demo4_request g] else [])"
proof -
  have line: "error_line e = [CHR 0xE2, CHR 0x9D, CHR 0x8C] @ '' Error: '' @ exn_str e"
    by (simp add: error_line_def cross_mark_def)
  have d1: "create L (demo1_request g) = Inl e \<longrightarrow>
      snd (demo1_simple_completion L g) = Normal
      \<and> (\<exists>hints. stderr_lines (fst (demo1_simple_completion L g)) =
            ([CHR 0xE2, CHR 0x9D, CHR 0x8C] @ '' Error: '' @ exn_str e) # hints)"
    using line by (simp add: demo1_failed)
  have d2: "create L (demo2_request g) = Inl e \<longrightarrow>
      snd (demo2_mcp_completion L g) = Normal
      \<and> (\<exists>hints. stderr_lines (fst (demo2_mcp_completion L g)) =
            ([CHR 0xE2, CHR 0x9D, CHR 0x8C] @ '' Error: '' @ exn_str e) # hints)"
    using line by (simp add: demo2_failed)
  have d3: "create L (demo3_request g) = Inl e \<longrightarrow>
      snd (demo3_discover_tools L g) = Normal
      \<and> (\<exists>hints. stderr_lines (fst (demo3_discover_tools L g)) =
            ([CHR 0xE2, CHR 0x9D, CHR 0x8C] @ '' Error: '' @ exn_str e) # hints)"
    using line by (simp add: demo3_failed)
  have d4: "truthy (FIRECRAWL_API_KEY g) \<and> create L (demo4_request g) = Inl e \<longrightarrow>
      snd (demo4_firecrawl_mcp L g) = Normal
      \<and> (\<exists>hints. stderr_lines (fst (demo4_firecrawl_mcp L g)) =
            ([CHR 0xE2, CHR 0x9D, CHR 0x8C] @ '' Error: '' @ exn_str e) # hints)"
    using line by (simp add: demo4_failed)
  have all: "\<exists>rest. main L g =
         (fst (demo1_simple_completion L g) @ fst (demo2_mcp_completion L g)
            @ fst (demo3_discover_tools L g) @ fst (demo4_firecrawl_mcp L g) @ rest, Normal)"
    using main_trace [of L g] by blast
  have rq: "requests (fst (main L g)) =
       [demo1_request g, demo2_request g, demo3_request g]
         @ (if truthy (FIRECRAWL_API_KEY g) then [demo4_request g] else [])"
    by (simp add: main_trace demo1_requests demo2_requests demo3_requests demo4_requests
        summary_def)
  from d1 d2 d3 d4 all rq show ?thesis by (intro conjI)
qed

lemma failing_create: "create (failing_libs code) req = Inl (api_error code)"
  by (simp add: failing_libs_def)

lemma sample_truthy: "truthy (FIRECRAWL_API_KEY sample_globals)"
  by (simp add: sample_globals_def truthy_def)

lemma api_error_401: "exn_str (api_error 401) = ''Error code: 401''"
  by (simp add: api_error_def str_int_def str_nat.simps digit_char_def)

text \<open>C3 on a client that answers every request with status 401.\<close>

theorem errors_caught_locally_witness:
  "snd (demo1_simple_completion (failing_libs 401) sample_globals) = Normal
   \<and> snd (demo2_mcp_completion (failing_libs 401) sample_globals) = Normal
   \<and> snd (demo3_discover_tools (failing_libs 401) sample_globals) = Normal
   \<and> (\<exists>hints. stderr_lines (fst (demo3_discover_tools (failing_libs 401) sample_globals)) =
         ([CHR 0xE2, CHR 0x9D, CHR 0x8C] @ '' Error: Error code: 401'') # hints)
   \<and> snd (demo4_firecrawl_mcp (failing_libs 401) sample_globals) = Normal
   \<and> requests (fst (main (failing_libs 401) sample_globals)) =
       [demo1_request sample_globals, demo2_request sample_globals,
        demo3_request sample_globals, demo4_request sample_globals]"
proof -
  note t = errors_caught_locally [of "failing_libs 401" sample_globals "api_error 401"]
  have c1: "create (failing_libs 401) (demo1_request sample_globals) = Inl (api_error 401)"
    and c2: "create (failing_libs 401) (demo2_request sample_globals) = Inl (api_error 401)"
    and c3: "create (failing_libs 401) (demo3_request sample_globals) = Inl (api_error 401)"
    and c4: "create (failing_libs 401) (demo4_request sample_globals) = Inl (api_error 401)"
    by (rule failing_create)+
  from t c1 have a: "snd (demo1_simple_completion (failing_libs 401) sample_globals) = Normal"
    by blast
  from t c2 have a2: "snd (demo2_mcp_completion (failing_libs 401) sample_globals) = Normal"
    by blast
  from t c3 have a3: "snd (demo3_discover_tools (failing_libs 401) sample_globals) = Normal"
    by blast
  from t c3
  have "\<exists>hints. stderr_lines (fst (demo3_discover_tools (failing_libs 401) sample_globals)) =
         ([CHR 0xE2, CHR 0x9D, CHR 0x8C] @ '' Error: '' @ exn_str (api_error 401)) # hints"
    by blast
  then have r3:
    "\<exists>hints. stderr_lines (fst (demo3_discover_tools (failing_libs 401) sample_globals)) =
         ([CHR 0xE2, CHR 0x9D, CHR 0x8C] @ '' Error: Error code: 401'') # hints"
    by (simp add: api_error_401)
  from t c4 sample_truthy
  have b: "snd (demo4_firecrawl_mcp (failing_libs 401) sample_globals) = Normal"
    by blast
  from t have "requests (fst (main (failing_libs 401) sample_globals)) =
       [demo1_request sample_globals, demo2_request sample_globals,
        demo3_request sample_globals]
         @ (if truthy (FIRECRAWL_API_KEY sample_globals)
            then [demo4_request sample_globals] else [])"
    by blast
  with sample_truthy
  have c: "requests (fst (main (failing_libs 401) sample_globals)) =
       [demo1_request sample_globals, demo2_request sample_globals,
        demo3_request sample_globals, demo4_request sample_globals]"
    by simp
  from a a2 a3 r3 b c show ?thesis by (intro conjI)
qed

text \<open>
  Claim C4, as amended. When the completion call raises an exception, every routine
  writes the generic error line to the error stream, and after it the hints of that
  routine: routine 1 adds the authentication hint for status 401; routine 2 adds the
  authentication hint for status 401 and the two lines of the dependency hint for status
  424; routine 3 adds no hint; routine 4 adds the two lines of its Firecrawl hint for
  status 424. For any other status code, and for an error without a status code, the
  generic line stands alone.
\<close>

theorem error_hints_by_routine:
  "(create L (demo1_request g) = Inl e \<longrightarrow>
      stderr_lines (fst (demo1_simple_completion L g)) =
        error_line e #
          (if status_code e = Some 401 then [''   Check your GROQ_API_KEY''] else []))
   \<and> (create L (demo2_request g) = Inl e \<longrightarrow>
      stderr_lines (fst (demo2_mcp_completion L g)) =
        error_line e #
          (if status_code e = Some 401 then [''   Check your GROQ_API_KEY'']
           else if status_code e = Some 424
           then [''   MCP server dependency failed'', ''   Check that MCP servers are reachable'']
           else []))
   \<and> (create L (demo3_request g) = Inl e \<longrightarrow>
      stderr_lines (fst (demo3_discover_tools L g)) = [error_line e])
   \<and> (truthy (FIRECRAWL_API_KEY g) \<and> create L (demo4_request g) = Inl e \<longrightarrow>
      stderr_lines (fst (demo4_firecrawl_mcp L g)) =
        error_line e #
          (if status_code e = Some 424
           then [''   Firecrawl MCP server failed'', ''   Check your FIRECRAWL_API_KEY'']
           else []))"
proof -
  have d1: "create L (demo1_request g) = Inl e \<longrightarrow>
      stderr_lines (fst (demo1_simple_completion L g)) =
        error_line e #
          (if status_code e = Some 401 then [''   Check your GROQ_API_KEY''] else [])"
    by (simp add: demo1_failed)
  have d2: "create L (demo2_request g) = Inl e \<longrightarrow>
      stderr_lines (fst (demo2_mcp_completion L g)) =
        error_line e #
          (if status_code e = Some 401 then [''   Check your GROQ_API_KEY'']
           else if status_code e = Some 424
           then [''   MCP server dependency failed'', ''   Check that MCP servers are reachable'']
           else [])"
    by (simp add: demo2_failed)
  have d3: "create L (demo3_request g) = Inl e \<longrightarrow>
      stderr_lines (fst (demo3_discover_tools L g)) = [error_line e]"
    by (simp add: demo3_failed)
  have d4: "truthy (FIRECRAWL_API_KEY g) \<and> create L (demo4_request g) = Inl e \<longrightarrow>
      stderr_lines (fst (demo4_firecrawl_mcp L g)) =
        error_line e #
          (if status_code e = Some 424
           then [''   Firecrawl MCP server failed'', ''   Check your FIRECRAWL_API_KEY'']
           else [])"
    by (simp add: demo4_failed)
  from d1 d2 d3 d4 show ?thesis by (intro conjI)
qed

text \<open>C4 on a client that answers every request with status 401.\<close>

theorem error_hints_by_routine_witness:
  "stderr_lines (fst (demo1_simple_completion (failing_libs 401) sample_globals)) =
     [error_line (api_error 401), ''   Check your GROQ_API_KEY'']
   \<and> stderr_lines (fst (demo2_mcp_completion (failing_libs 401) sample_globals)) =
     [error_line (api_error 401), ''   Check your GROQ_API_KEY'']
   \<and> stderr_lines (fst (demo3_discover_tools (failing_libs 401) sample_globals)) =
     [error_line (api_error 401)]
   \<and> stderr_lines (fst (demo4_firecrawl_mcp (failing_libs 401) sample_globals)) =
     [error_line (api_error 401)]"
  using error_hints_by_routine [of "failing_libs 401" sample_globals "api_error 401"]
    failing_create [of 401] sample_truthy
  by (simp add: api_error_def)

text \<open>Claim C4 as stated promises the authentication hint for a 401 failure in every
  routine. In routine 3 a request that fails with status 401 leaves the generic error
  line on the error stream and nothing else.\<close>

theorem demo3_unauthorized_counterexample:
  "status_code (api_error 401) = Some 401
   \<and> create (failing_libs 401) (demo3_request sample_globals) = Inl (api_error 401)
   \<and> stderr_lines (fst (demo3_discover_tools (failing_libs 401) sample_globals)) =
       [error_line (api_error 401)]
   \<and> error_line (api_error 401) \<noteq> ''   Check your GROQ_API_KEY''"
  by (simp add: demo3_failed failing_create api_error_def error_line_def cross_mark_def)

subsection \<open>Routine 4\<close>

lemma demo4_answered:
  assumes "truthy (FIRECRAWL_API_KEY g)"
    and "create L (demo4_request g) = Inr r"
    and "choices r = c # cs"
  shows "demo4_firecrawl_mcp L g =
     ([Out (globe @ '' Demo 4: Firecrawl MCP Web Scraping''), Out dashes,
       Create (demo4_request g), Out ''Response:'',
       Out (if truthy (content (choice_message c)) then py_str (content (choice_message c))
            else dump_message L (choice_message c)),
       Out '''', Out (tokens_line r), Out ''''], Normal)"
  using assms by (simp add: demo4_run demo4_try_def run_simps)

text \<open>
  Claim C5. Firecrawl is configured when \<^verbatim>\<open>FIRECRAWL_API_KEY\<close> is true in Python's
  sense, which is the test the routine makes and the sense of its own skip notice. When
  it is not configured, routine 4 prints the two lines of the skip notice and a blank line
  and returns, without any request. When it is configured, the routine sends exactly one
  request. On a response with a first choice it then prints the text content when there
  is one, that is when the content is a non-empty string, and the JSON dump of the message
  when the content is \<^verbatim>\<open>None\<close> or empty.
\<close>

theorem routine4_skip_or_request:
  "(\<not> truthy (FIRECRAWL_API_KEY g) \<longrightarrow> demo4_firecrawl_mcp L g = (demo4_skip, Normal))
   \<and> stdout_lines demo4_skip =
       [next_track @ ''  Demo 4: Skipped (Firecrawl not configured)'',
        ''   Set FIRECRAWL_API_KEY to enable web scraping demo'', '''']
   \<and> requests demo4_skip = []
   \<and> (truthy (FIRECRAWL_API_KEY g) \<longrightarrow>
         requests (fst (demo4_firecrawl_mcp L g)) = [demo4_request g])
   \<and> (\<forall>t. truthy (FIRECRAWL_API_KEY g) \<and> create L (demo4_request g) = Inr r
          \<and> choices r = c # cs \<and> content (choice_message c) = Some t \<and> t \<noteq> [] \<longrightarrow>
         stdout_lines (fst (demo4_firecrawl_mcp L g)) =
           [globe @ '' Demo 4: Firecrawl MCP Web Scraping'', dashes, ''Response:'',
            t, '''', tokens_line r, ''''])
   \<and> (truthy (FIRECRAWL_API_KEY g) \<and> create L (demo4_request g) = Inr r
          \<and> choices r = c # cs
          \<and> (content (choice_message c) = None \<or> content (choice_message c) = Some []) \<longrightarrow>
         stdout_lines (fst (demo4_firecrawl_mcp L g)) =
           [globe @ '' Demo 4: Firecrawl MCP Web Scraping'', dashes, ''Response:'',
            dump_message L (choice_message c), '''', tokens_line r, ''''])"
proof -
  have skipped: "\<not> truthy (FIRECRAWL_API_KEY g) \<longrightarrow>
      demo4_firecrawl_mcp L g = (demo4_skip, Normal)"
    by (simp add: demo4_skipped)
  have notice: "stdout_lines demo4_skip =
       [next_track @ ''  Demo 4: Skipped (Firecrawl not configured)'',
        ''   Set FIRECRAWL_API_KEY to enable web scraping demo'', '''']"
    "requests demo4_skip = []"
    by (simp_all add: demo4_skip_def)
  have one: "truthy (FIRECRAWL_API_KEY g) \<longrightarrow>
         requests (fst (demo4_firecrawl_mcp L g)) = [demo4_request g]"
    by (simp add: demo4_requests)
  have raw: "\<forall>t. truthy (FIRECRAWL_API_KEY g) \<and> create L (demo4_request g) = Inr r
          \<and> choices r = c # cs \<and> content (choice_message c) = Some t \<and> t \<noteq> [] \<longrightarrow>
         stdout_lines (fst (demo4_firecrawl_mcp L g)) =
           [globe @ '' Demo 4: Firecrawl MCP Web Scraping'', dashes, ''Response:'',
            t, '''', tokens_line r, '''']"
    by (simp add: demo4_answered truthy_def py_str_def)
  have dump: "truthy (FIRECRAWL_API_KEY g) \<and> create L (demo4_request g) = Inr r
          \<and> choices r = c # cs
          \<and> (content (choice_message c) = None \<or> content (choice_message c) = Some []) \<longrightarrow>
         stdout_lines (fst (demo4_firecrawl_mcp L g)) =
           [globe @ '' Demo 4: Firecrawl MCP Web Scraping'', dashes, ''Response:'',
            dump_message L (choice_message c), '''', tokens_line r, '''']"
    by (auto simp: demo4_answered truthy_def)
  from skipped notice one raw dump show ?thesis by (intro conjI)
qed

text \<open>C5 on the skip branch, on a response with the text \<open>hello\<close>, and on a response
  without text.\<close>

theorem routine4_skip_or_request_witness:
  "demo4_firecrawl_mcp mock_libs (sample_globals\<lparr>FIRECRAWL_API_KEY := None\<rparr>)
     = (demo4_skip, Normal)
   \<and> requests (fst (demo4_firecrawl_mcp mock_libs sample_globals)) = [demo4_request sample_globals]
   \<and> stdout_lines (fst (demo4_firecrawl_mcp mock_libs sample_globals)) =
       [globe @ '' Demo 4: Firecrawl MCP Web Scraping'', dashes, ''Response:'',
        ''hello'', '''', tokens_line hello_response, '''']
   \<and> stdout_lines (fst (demo4_firecrawl_mcp tool_libs sample_globals)) =
       [globe @ '' Demo 4: Firecrawl MCP Web Scraping'', dashes, ''Response:'',
        ''{}'', '''', tokens_line tool_response, '''']"
proof -
  have n: "\<not> truthy (FIRECRAWL_API_KEY (sample_globals\<lparr>FIRECRAWL_API_KEY := None\<rparr>))"
    by (simp add: truthy_def)
  have a: "demo4_firecrawl_mcp mock_libs (sample_globals\<lparr>FIRECRAWL_API_KEY := None\<rparr>)
     = (demo4_skip, Normal)"
    using routine4_skip_or_request [of "sample_globals\<lparr>FIRECRAWL_API_KEY := None\<rparr>" mock_libs] n
    by blast
  note t = routine4_skip_or_request [of sample_globals mock_libs hello_response
      "\<lparr>choice_message = hello_message\<rparr>" "[]"]
  have c: "create mock_libs (demo4_request sample_globals) = Inr hello_response"
    by (simp add: mock_libs_def)
  have ch: "choices hello_response = \<lparr>choice_message = hello_message\<rparr> # []"
    by (simp add: hello_response_def)
  have co: "content (choice_message \<lparr>choice_message = hello_message\<rparr>) = Some ''hello''
      \<and> ''hello'' \<noteq> []"
    by (simp add: hello_message_def)
  from t sample_truthy
  have b: "requests (fst (demo4_firecrawl_mcp mock_libs sample_globals))
      = [demo4_request sample_globals]"
    by blast
  from t sample_truthy c ch co
  have d: "stdout_lines (fst (demo4_firecrawl_mcp mock_libs sample_globals)) =
       [globe @ '' Demo 4: Firecrawl MCP Web Scraping'', dashes, ''Response:'',
        ''hello'', '''', tokens_line hello_response, '''']"
    by blast
  note u = routine4_skip_or_request [of sample_globals tool_libs tool_response
      "\<lparr>choice_message = tool_message\<rparr>" "[]"]
  have c': "create tool_libs (demo4_request sample_globals) = Inr tool_response"
    by (simp add: tool_libs_def)
  have ch': "choices tool_response = \<lparr>choice_message = tool_message\<rparr> # []"
    by (simp add: tool_response_def)
  have co': "content (choice_message \<lparr>choice_message = tool_message\<rparr>) = None"
    by (simp add: tool_message_def)
  have dm: "dump_message tool_libs (choice_message \<lparr>choice_message = tool_message\<rparr>) = ''{}''"
    by (simp add: tool_libs_def)
  from u sample_truthy c' ch' co'
  have "stdout_lines (fst (demo4_firecrawl_mcp tool_libs sample_globals)) =
       [globe @ '' Demo 4: Firecrawl MCP Web Scraping'', dashes, ''Response:'',
        dump_message tool_libs (choice_message \<lparr>choice_message = tool_message\<rparr>), '''',
        tokens_line tool_response, '''']"
    by blast
  then have e: "stdout_lines (fst (demo4_firecrawl_mcp tool_libs sample_globals)) =
       [globe @ '' Demo 4: Firecrawl MCP Web Scraping'', dashes, ''Response:'',
        ''{}'', '''', tokens_line tool_response, '''']"
    by (simp only: dm)
  from a b d e show ?thesis by (intro conjI)
qed

subsection \<open>The arguments of a tool call\<close>















subsection \<open>The entry point and the exit status\<close>

lemma summary_lines:
  "summary =
     [Out (replicate 60 CHR ''=''),
      Out ([CHR 0xE2, CHR 0x9C, CHR 0x85] @ '' All demos completed successfully!''),
      Out '''',
      Out ''Next steps:'',
      Out ''  - Set FIRECRAWL_API_KEY to enable web scraping'',
      Out ''  - Try different models (llama-3.1-8b-instant, etc.)'',
      Out ''  - Read docs/groq-mcp.md for more information'',
      Out (replicate 60 CHR ''='')]"
  by (simp add: summary_def equals_rule_def check_button_def)

lemma fatal_line_bytes:
  "fatal_line e = [CHR 0xE2, CHR 0x9D, CHR 0x8C] @ '' Fatal error: '' @ exn_str e"
  by (simp add: fatal_line_def cross_mark_def)

lemma main_is_around:
  "main L g =
     main_around (demo1_simple_completion L g) (demo2_mcp_completion L g)
       (demo3_discover_tools L g) (demo4_firecrawl_mcp L g)"
  by (simp add: main_def main_around_def)

lemma routines_return:
  "snd (demo1_simple_completion L g) = Normal"
  "snd (demo2_mcp_completion L g) = Normal"
  "snd (demo3_discover_tools L g) = Normal"
  "snd (demo4_firecrawl_mcp L g) = Normal"
  by (simp_all add: demo1_shape demo2_shape demo3_shape demo4_shape)

lemma main_around_normal:
  "snd d1 = Normal \<Longrightarrow> snd d2 = Normal \<Longrightarrow> snd d3 = Normal \<Longrightarrow> snd d4 = Normal \<Longrightarrow>
   main_around d1 d2 d3 d4 = (fst d1 @ fst d2 @ fst d3 @ fst d4 @ summary, Normal)"
  by (simp add: main_around_def run_simps)

lemma main_around_raised:
  "snd d1 = Raised e \<Longrightarrow>
   main_around d1 d2 d3 d4 = (fst d1 @ [Err (fatal_line e)], Exit 1)"
  "snd d1 = Normal \<Longrightarrow> snd d2 = Raised e \<Longrightarrow>
   main_around d1 d2 d3 d4 = (fst d1 @ fst d2 @ [Err (fatal_line e)], Exit 1)"
  "snd d1 = Normal \<Longrightarrow> snd d2 = Normal \<Longrightarrow> snd d3 = Raised e \<Longrightarrow>
   main_around d1 d2 d3 d4 = (fst d1 @ fst d2 @ fst d3 @ [Err (fatal_line e)], Exit 1)"
  "snd d1 = Normal \<Longrightarrow> snd d2 = Normal \<Longrightarrow> snd d3 = Normal \<Longrightarrow> snd d4 = Raised e \<Longrightarrow>
   main_around d1 d2 d3 d4 = (fst d1 @ fst d2 @ fst d3 @ fst d4 @ [Err (fatal_line e)], Exit 1)"
  by (simp_all add: main_around_def run_simps)

lemma script_passed:
  "snd (startup L environ) = Inr g \<Longrightarrow>
   script environ L = (fst (startup L environ) @ fst (main L g), 0)"
  by (cases "startup L environ") (auto simp: script_def main_trace)

lemma script_stopped:
  "startup L environ = (es, Inl c) \<Longrightarrow> script environ L = (es, c)"
  by (simp add: script_def)

lemma startup_runs:
  assumes "truthy (environ ''GROQ_API_KEY'')"
    and "new_client L (environ ''GROQ_API_KEY'') ''https://api.groq.com/openai/v1'' = None"
    and "\<forall>s. stdout_error L s = None"
  shows "\<exists>g. snd (startup L environ) = Inr g"
  using assms(1) startup_body_written [OF assms(2,3)]
  by (simp add: startup_def Let_def)

lemma script_exit_0:
  assumes "truthy (environ ''GROQ_API_KEY'')"
    and "new_client L (environ ''GROQ_API_KEY'') ''https://api.groq.com/openai/v1'' = None"
    and "\<forall>s. stdout_error L s = None"
  shows "snd (script environ L) = 0"
proof -
  from startup_runs [of environ L] assms obtain g where "snd (startup L environ) = Inr g"
    by blast
  then show ?thesis by (simp add: script_passed)
qed

text \<open>
  Claim C8. \<open>main\<close> runs routine 1, then routine 2, routine 3 and routine 4, and then
  prints the eight lines of the summary. Each routine returns normally, so the trace of
  \<open>main\<close> is the four traces in this order followed by the summary, and \<open>main\<close> ends
  normally. A run of the script whose start-up runs to its end exits with status 0; this
  is the case when the key is not empty, the constructor of the client returns and every
  line of the banner is written. A run whose start-up ends the process exits with the
  status of start-up.

  \<open>main\<close> is one handler around the four calls. For arbitrary results of the four calls:
  when all of them return normally, the summary follows their traces; when one of them
  raises, the calls after it and the summary leave no trace, the handler prints the fatal
  error line with the text of the exception to the error stream after what has been
  printed so far, and the process exits with status 1.
\<close>

theorem main_order_and_exit:
  "main L g =
     (fst (demo1_simple_completion L g) @ fst (demo2_mcp_completion L g)
        @ fst (demo3_discover_tools L g) @ fst (demo4_firecrawl_mcp L g)
        @ [Out (replicate 60 CHR ''=''),
           Out ([CHR 0xE2, CHR 0x9C, CHR 0x85] @ '' All demos completed successfully!''),
           Out '''',
           Out ''Next steps:'',
           Out ''  - Set FIRECRAWL_API_KEY to enable web scraping'',
           Out ''  - Try different models (llama-3.1-8b-instant, etc.)'',
           Out ''  - Read docs/groq-mcp.md for more information'',
           Out (replicate 60 CHR ''='')], Normal)
   \<and> snd (demo1_simple_completion L g) = Normal
   \<and> snd (demo2_mcp_completion L g) = Normal
   \<and> snd (demo3_discover_tools L g) = Normal
   \<and> snd (demo4_firecrawl_mcp L g) = Normal
   \<and> exit_status (snd (main L g)) = 0
   \<and> (snd (startup L environ) = Inr g \<longrightarrow>
        script environ L = (fst (startup L environ) @ fst (main L g), 0))
   \<and> (environ ''GROQ_API_KEY'' = Some k \<and> k \<noteq> []
        \<and> new_client L (Some k) ''https://api.groq.com/openai/v1'' = None
        \<and> (\<forall>s. stdout_error L s = None) \<longrightarrow>
        snd (script environ L) = 0)
   \<and> (startup L environ = (es, Inl c) \<longrightarrow> script environ L = (es, c))
   \<and> main L g =
        main_around (demo1_simple_completion L g) (demo2_mcp_completion L g)
          (demo3_discover_tools L g) (demo4_firecrawl_mcp L g)
   \<and> (snd d1 = Normal \<and> snd d2 = Normal \<and> snd d3 = Normal \<and> snd d4 = Normal \<longrightarrow>
        main_around d1 d2 d3 d4 =
          (fst d1 @ fst d2 @ fst d3 @ fst d4
             @ [Out (replicate 60 CHR ''=''),
                Out ([CHR 0xE2, CHR 0x9C, CHR 0x85] @ '' All demos completed successfully!''),
                Out '''',
                Out ''Next steps:'',
                Out ''  - Set FIRECRAWL_API_KEY to enable web scraping'',
                Out ''  - Try different models (llama-3.1-8b-instant, etc.)'',
                Out ''  - Read docs/groq-mcp.md for more information'',
                Out (replicate 60 CHR ''='')], Normal))
   \<and> (snd d1 = Raised e \<longrightarrow>
        main_around d1 d2 d3 d4 =
          (fst d1 @ [Err ([CHR 0xE2, CHR 0x9D, CHR 0x8C] @ '' Fatal error: '' @ exn_str e)],
           Exit 1)
        \<and> exit_status (snd (main_around d1 d2 d3 d4)) = 1)
   \<and> (snd d1 = Normal \<and> snd d2 = Raised e \<longrightarrow>
        main_around d1 d2 d3 d4 =
          (fst d1 @ fst d2
             @ [Err ([CHR 0xE2, CHR 0x9D, CHR 0x8C] @ '' Fatal error: '' @ exn_str e)],
           Exit 1)
        \<and> exit_status (snd (main_around d1 d2 d3 d4)) = 1)
   \<and> (snd d1 = Normal \<and> snd d2 = Normal \<and> snd d3 = Raised e \<longrightarrow>
        main_around d1 d2 d3 d4 =
          (fst d1 @ fst d2 @ fst d3
             @ [Err ([CHR 0xE2, CHR 0x9D, CHR 0x8C] @ '' Fatal error: '' @ exn_str e)],
           Exit 1)
        \<and> exit_status (snd (main_around d1 d2 d3 d4)) = 1)
   \<and> (snd d1 = Normal \<and> snd d2 = Normal \<and> snd d3 = Normal \<and> snd d4 = Raised e \<longrightarrow>
        main_around d1 d2 d3 d4 =
          (fst d1 @ fst d2 @ fst d3 @ fst d4
             @ [Err ([CHR 0xE2, CHR 0x9D, CHR 0x8C] @ '' Fatal error: '' @ exn_str e)],
           Exit 1)
        \<and> exit_status (snd (main_around d1 d2 d3 d4)) = 1)"
proof -
  have tr: "main L g =
     (fst (demo1_simple_completion L g) @ fst (demo2_mcp_completion L g)
        @ fst (demo3_discover_tools L g) @ fst (demo4_firecrawl_mcp L g)
        @ [Out (replicate 60 CHR ''=''),
           Out ([CHR 0xE2, CHR 0x9C, CHR 0x85] @ '' All demos completed successfully!''),
           Out '''',
           Out ''Next steps:'',
           Out ''  - Set FIRECRAWL_API_KEY to enable web scraping'',
           Out ''  - Try different models (llama-3.1-8b-instant, etc.)'',
           Out ''  - Read docs/groq-mcp.md for more information'',
           Out (replicate 60 CHR ''='')], Normal)"
    using main_trace [of L g] unfolding summary_lines .
  have ex: "exit_status (snd (main L g)) = 0"
    by (simp add: main_trace)
  have sc: "snd (startup L environ) = Inr g \<longrightarrow>
        script environ L = (fst (startup L environ) @ fst (main L g), 0)"
    using script_passed [of L environ g] by blast
  have ok: "environ ''GROQ_API_KEY'' = Some k \<and> k \<noteq> []
        \<and> new_client L (Some k) ''https://api.groq.com/openai/v1'' = None
        \<and> (\<forall>s. stdout_error L s = None) \<longrightarrow>
        snd (script environ L) = 0"
    using script_exit_0 [of environ L] by (simp add: truthy_def)
  have st: "startup L environ = (es, Inl c) \<longrightarrow> script environ L = (es, c)"
    using script_stopped [of L environ es c] by blast
  have n: "snd d1 = Normal \<and> snd d2 = Normal \<and> snd d3 = Normal \<and> snd d4 = Normal \<longrightarrow>
        main_around d1 d2 d3 d4 =
          (fst d1 @ fst d2 @ fst d3 @ fst d4
             @ [Out (replicate 60 CHR ''=''),
                Out ([CHR 0xE2, CHR 0x9C, CHR 0x85] @ '' All demos completed successfully!''),
                Out '''',
                Out ''Next steps:'',
                Out ''  - Set FIRECRAWL_API_KEY to enable web scraping'',
                Out ''  - Try different models (llama-3.1-8b-instant, etc.)'',
                Out ''  - Read docs/groq-mcp.md for more information'',
                Out (replicate 60 CHR ''='')], Normal)"
    using main_around_normal [of d1 d2 d3 d4] unfolding summary_lines by blast
  have r1: "snd d1 = Raised e \<longrightarrow>
        main_around d1 d2 d3 d4 =
          (fst d1 @ [Err ([CHR 0xE2, CHR 0x9D, CHR 0x8C] @ '' Fatal error: '' @ exn_str e)],
           Exit 1)
        \<and> exit_status (snd (main_around d1 d2 d3 d4)) = 1"
    using main_around_raised(1) [of d1 e d2 d3 d4] unfolding fatal_line_bytes by simp
  have r2: "snd d1 = Normal \<and> snd d2 = Raised e \<longrightarrow>
        main_around d1 d2 d3 d4 =
          (fst d1 @ fst d2
             @ [Err ([CHR 0xE2, CHR 0x9D, CHR 0x8C] @ '' Fatal error: '' @ exn_str e)],
           Exit 1)
        \<and> exit_status (snd (main_around d1 d2 d3 d4)) = 1"
    using main_around_raised(2) [of d1 d2 e d3 d4] unfolding fatal_line_bytes by simp
  have r3: "snd d1 = Normal \<and> snd d2 = Normal \<and> snd d3 = Raised e \<longrightarrow>
        main_around d1 d2 d3 d4 =
          (fst d1 @ fst d2 @ fst d3
             @ [Err ([CHR 0xE2, CHR 0x9D, CHR 0x8C] @ '' Fatal error: '' @ exn_str e)],
           Exit 1)
        \<and> exit_status (snd (main_around d1 d2 d3 d4)) = 1"
    using main_around_raised(3) [of d1 d2 d3 e d4] unfolding fatal_line_bytes by simp
  have r4: "snd d1 = Normal \<and> snd d2 = Normal \<and> snd d3 = Normal \<and> snd d4 = Raised e \<longrightarrow>
        main_around d1 d2 d3 d4 =
          (fst d1 @ fst d2 @ fst d3 @ fst d4
             @ [Err ([CHR 0xE2, CHR 0x9D, CHR 0x8C] @ '' Fatal error: '' @ exn_str e)],
           Exit 1)
        \<and> exit_status (snd (main_around d1 d2 d3 d4)) = 1"
    using main_around_raised(4) [of d1 d2 d3 d4 e] unfolding fatal_line_bytes by simp
  from tr routines_return [of L g] ex sc ok st main_is_around [of L g] n r1 r2 r3 r4
  show ?thesis by (intro conjI)
qed

text \<open>C8 on two runs of the script, one with the mock client and one on a host whose
  constructor raises, and on the handler: with four calls that return, and with a call
  that raises in the first, the second, the third and the fourth position.\<close>

theorem main_order_and_exit_witness:
  "snd (script sample_environ mock_libs) = 0
   \<and> script sample_environ bad_proxy_libs = ([], 1)
   \<and> main_around (print_stdout ''one'') (print_stdout ''two'') (print_stdout ''three'')
       (print_stdout ''four'') =
       ([Out ''one'', Out ''two'', Out ''three'', Out ''four'',
         Out (replicate 60 CHR ''=''),
         Out ([CHR 0xE2, CHR 0x9C, CHR 0x85] @ '' All demos completed successfully!''),
         Out '''',
         Out ''Next steps:'',
         Out ''  - Set FIRECRAWL_API_KEY to enable web scraping'',
         Out ''  - Try different models (llama-3.1-8b-instant, etc.)'',
         Out ''  - Read docs/groq-mcp.md for more information'',
         Out (replicate 60 CHR ''='')], Normal)
   \<and> main_around ([Out ''zero''], Raised index_error) (print_stdout ''two'')
       (print_stdout ''three'') (print_stdout ''four'') =
       ([Out ''zero'',
         Err ([CHR 0xE2, CHR 0x9D, CHR 0x8C] @ '' Fatal error: list index out of range'')],
        Exit 1)
   \<and> main_around (print_stdout ''one'') ([], Raised index_error) (print_stdout ''three'')
       (print_stdout ''four'') =
       ([Out ''one'',
         Err ([CHR 0xE2, CHR 0x9D, CHR 0x8C] @ '' Fatal error: list index out of range'')],
        Exit 1)
   \<and> main_around (print_stdout ''one'') (print_stdout ''two'') ([], Raised index_error)
       (print_stdout ''four'') =
       ([Out ''one'', Out ''two'',
         Err ([CHR 0xE2, CHR 0x9D, CHR 0x8C] @ '' Fatal error: list index out of range'')],
        Exit 1)
   \<and> main_around (print_stdout ''one'') (print_stdout ''two'') (print_stdout ''three'')
       ([], Raised index_error) =
       ([Out ''one'', Out ''two'', Out ''three'',
         Err ([CHR 0xE2, CHR 0x9D, CHR 0x8C] @ '' Fatal error: list index out of range'')],
        Exit 1)
   \<and> exit_status (snd (main_around (print_stdout ''one'') ([], Raised index_error)
         (print_stdout ''three'') (print_stdout ''four''))) = 1"
proof -
  have a: "snd (script sample_environ mock_libs) = 0"
    using main_order_and_exit [where L = mock_libs and environ = sample_environ
        and k = "''gsk_test''",
        THEN conjunct2, THEN conjunct2, THEN conjunct2, THEN conjunct2,
        THEN conjunct2, THEN conjunct2, THEN conjunct2, THEN conjunct1] sample_key
    by (simp add: mock_libs_def)
  have sb: "startup bad_proxy_libs sample_environ = ([], Inl 1)"
    by (simp add: startup_def Let_def startup_body_def construct_client_def block_Cons
        bad_proxy_libs_def sample_environ_def truthy_def)
  have b: "script sample_environ bad_proxy_libs = ([], 1)"
    using main_order_and_exit [where L = bad_proxy_libs and environ = sample_environ
        and es = "[]" and c = 1,
        THEN conjunct2, THEN conjunct2, THEN conjunct2, THEN conjunct2,
        THEN conjunct2, THEN conjunct2, THEN conjunct2, THEN conjunct2,
        THEN conjunct1] sb
    by blast
  have p: "snd (print_stdout s) = Normal" "fst (print_stdout s) = [Out s]" for s
    by (simp_all add: print_stdout_def)
  have c: "main_around (print_stdout ''one'') (print_stdout ''two'') (print_stdout ''three'')
       (print_stdout ''four'') =
       ([Out ''one'', Out ''two'', Out ''three'', Out ''four'',
         Out (replicate 60 CHR ''=''),
         Out ([CHR 0xE2, CHR 0x9C, CHR 0x85] @ '' All demos completed successfully!''),
         Out '''',
         Out ''Next steps:'',
         Out ''  - Set FIRECRAWL_API_KEY to enable web scraping'',
         Out ''  - Try different models (llama-3.1-8b-instant, etc.)'',
         Out ''  - Read docs/groq-mcp.md for more information'',
         Out (replicate 60 CHR ''='')], Normal)"
    using main_order_and_exit [where ?d1.0 = "print_stdout ''one''"
        and ?d2.0 = "print_stdout ''two''" and ?d3.0 = "print_stdout ''three''"
        and ?d4.0 = "print_stdout ''four''",
        THEN conjunct2, THEN conjunct2, THEN conjunct2, THEN conjunct2,
        THEN conjunct2, THEN conjunct2, THEN conjunct2, THEN conjunct2,
        THEN conjunct2, THEN conjunct2, THEN conjunct1]
    by (simp add: p)
  have d: "main_around ([Out ''zero''], Raised index_error) (print_stdout ''two'')
       (print_stdout ''three'') (print_stdout ''four'') =
       ([Out ''zero'',
         Err ([CHR 0xE2, CHR 0x9D, CHR 0x8C] @ '' Fatal error: list index out of range'')],
        Exit 1)"
    using main_order_and_exit [where ?d1.0 = "([Out ''zero''], Raised index_error)"
        and ?d2.0 = "print_stdout ''two''" and ?d3.0 = "print_stdout ''three''"
        and ?d4.0 = "print_stdout ''four''" and e = index_error,
        THEN conjunct2, THEN conjunct2, THEN conjunct2, THEN conjunct2,
        THEN conjunct2, THEN conjunct2, THEN conjunct2, THEN conjunct2,
        THEN conjunct2, THEN conjunct2, THEN conjunct2, THEN conjunct1]
    by (simp add: p index_error_def)
  have e: "main_around (print_stdout ''one'') ([], Raised index_error) (print_stdout ''three'')
       (print_stdout ''four'') =
       ([Out ''one'',
         Err ([CHR 0xE2, CHR 0x9D, CHR 0x8C] @ '' Fatal error: list index out of range'')],
        Exit 1)
     \<and> exit_status (snd (main_around (print_stdout ''one'') ([], Raised index_error)
         (print_stdout ''three'') (print_stdout ''four''))) = 1"
    using main_order_and_exit [where ?d1.0 = "print_stdout ''one''"
        and ?d2.0 = "([], Raised index_error)" and ?d3.0 = "print_stdout ''three''"
        and ?d4.0 = "print_stdout ''four''" and e = index_error,
        THEN conjunct2, THEN conjunct2, THEN conjunct2, THEN conjunct2,
        THEN conjunct2, THEN conjunct2, THEN conjunct2, THEN conjunct2,
        THEN conjunct2, THEN conjunct2, THEN conjunct2, THEN conjunct2,
        THEN conjunct1]
    by (simp add: p index_error_def)
  have f: "main_around (print_stdout ''one'') (print_stdout ''two'') ([], Raised index_error)
       (print_stdout ''four'') =
       ([Out ''one'', Out ''two'',
         Err ([CHR 0xE2, CHR 0x9D, CHR 0x8C] @ '' Fatal error: list index out of range'')],
        Exit 1)"
    using main_order_and_exit [where ?d1.0 = "print_stdout ''one''"
        and ?d2.0 = "print_stdout ''two''" and ?d3.0 = "([], Raised index_error)"
        and ?d4.0 = "print_stdout ''four''" and e = index_error,
        THEN conjunct2, THEN conjunct2, THEN conjunct2, THEN conjunct2,
        THEN conjunct2, THEN conjunct2, THEN conjunct2, THEN conjunct2,
        THEN conjunct2, THEN conjunct2, THEN conjunct2, THEN conjunct2,
        THEN conjunct2, THEN conjunct1]
    by (simp add: p index_error_def)
  have g: "main_around (print_stdout ''one'') (print_stdout ''two'') (print_stdout ''three'')
       ([], Raised index_error) =
       ([Out ''one'', Out ''two'', Out ''three'',
         Err ([CHR 0xE2, CHR 0x9D, CHR 0x8C] @ '' Fatal error: list index out of range'')],
        Exit 1)"
    using main_order_and_exit [where ?d1.0 = "print_stdout ''one''"
        and ?d2.0 = "print_stdout ''two''" and ?d3.0 = "print_stdout ''three''"
        and ?d4.0 = "([], Raised index_error)" and e = index_error,
        THEN conjunct2, THEN conjunct2, THEN conjunct2, THEN conjunct2,
        THEN conjunct2, THEN conjunct2, THEN conjunct2, THEN conjunct2,
        THEN conjunct2, THEN conjunct2, THEN conjunct2, THEN conjunct2,
        THEN conjunct2, THEN conjunct2]
    by (simp add: p index_error_def)
  from a b c d e f g show ?thesis by (intro conjI) blast+
qed

end
